theory Spec2Isabelle
  imports Complex_Main
begin

section \<open>JavaScript values used by the diagnostics engine\<close>

subsection \<open>Strings\<close>

text \<open>
  A string is the list of the bytes of its UTF-8 encoding: a character of the ASCII
  range is one byte below 128, any other character a run of bytes from 128 on. A log
  text is of this kind, since the source decodes it from the bytes of the stream; a
  string with a lone surrogate, which has no such encoding, is left out. The
  tests of the source that look for an ASCII text (\<open>includes\<close>, \<open>endsWith\<close>,
  \<open>split\<close> at a line feed, \<open>\d\<close> and the literals of a regular expression) give the
  same answer on the bytes as on the characters. Three builtins treat characters
  outside ASCII in a way of their own, and are modelled with it: \<open>trim\<close>,
  \<open>toLowerCase\<close> and the \<open>.\<close> of a regular expression.
\<close>

definition isDigit :: "char \<Rightarrow> bool" where
  "isDigit c = (48 \<le> (of_char c :: nat) \<and> (of_char c :: nat) \<le> 57)"

definition isUpper :: "char \<Rightarrow> bool" where
  "isUpper c = (65 \<le> (of_char c :: nat) \<and> (of_char c :: nat) \<le> 90)"

definition lowerChar :: "char \<Rightarrow> char" where
  "lowerChar c = (if isUpper c then char_of ((of_char c :: nat) + 32) else c)"

definition startsWith :: "string \<Rightarrow> string \<Rightarrow> bool" where
  "startsWith s sub = (take (length sub) s = sub)"

text \<open>
  \<open>toLowerCase\<close> maps \<open>A..Z\<close> to \<open>a..z\<close>, U+212A (Kelvin sign) to \<open>k\<close>, and U+0130
  (capital I with dot above) to \<open>i\<close> followed by U+0307. These are all the characters
  whose lower case holds an ASCII letter. A letter outside ASCII whose lower case is
  outside ASCII is left as it is: the lower-cased string of the model includes an ASCII
  text exactly when the one of the source does.
\<close>

definition kelvinSign :: string where
  "kelvinSign = [CHR 0xE2, CHR 0x84, CHR 0xAA]"

definition capitalIWithDot :: string where
  "capitalIWithDot = [CHR 0xC4, CHR 0xB0]"

fun lowerSpecial :: "string \<Rightarrow> string" where
  "lowerSpecial [] = []"
| "lowerSpecial (c # cs) =
     (if startsWith (c # cs) kelvinSign then CHR ''k'' # lowerSpecial (drop 2 cs)
      else if startsWith (c # cs) capitalIWithDot then CHR ''i'' # CHR 0xCC # CHR 0x87 # lowerSpecial (drop 1 cs)
      else c # lowerSpecial cs)"

definition toLowerCase :: "string \<Rightarrow> string" where
  "toLowerCase s = map lowerChar (lowerSpecial s)"

text \<open>
  The characters that \<open>trim\<close> removes, each as its bytes: tab, line feed, vertical tab,
  form feed, carriage return, space, U+00A0, U+1680, U+2000 to U+200A, U+2028, U+2029,
  U+202F, U+205F, U+3000 and U+FEFF.
\<close>

definition whiteSpaces :: "string list" where
  "whiteSpaces =
     [[CHR 0x09], [CHR 0x0A], [CHR 0x0B], [CHR 0x0C], [CHR 0x0D], [CHR 0x20],
      [CHR 0xC2, CHR 0xA0],
      [CHR 0xE1, CHR 0x9A, CHR 0x80],
      [CHR 0xE2, CHR 0x80, CHR 0x80], [CHR 0xE2, CHR 0x80, CHR 0x81], [CHR 0xE2, CHR 0x80, CHR 0x82],
      [CHR 0xE2, CHR 0x80, CHR 0x83], [CHR 0xE2, CHR 0x80, CHR 0x84], [CHR 0xE2, CHR 0x80, CHR 0x85],
      [CHR 0xE2, CHR 0x80, CHR 0x86], [CHR 0xE2, CHR 0x80, CHR 0x87], [CHR 0xE2, CHR 0x80, CHR 0x88],
      [CHR 0xE2, CHR 0x80, CHR 0x89], [CHR 0xE2, CHR 0x80, CHR 0x8A],
      [CHR 0xE2, CHR 0x80, CHR 0xA8], [CHR 0xE2, CHR 0x80, CHR 0xA9], [CHR 0xE2, CHR 0x80, CHR 0xAF],
      [CHR 0xE2, CHR 0x81, CHR 0x9F],
      [CHR 0xE3, CHR 0x80, CHR 0x80],
      [CHR 0xEF, CHR 0xBB, CHR 0xBF]]"

text \<open>\<open>dropLeading ws s\<close>: \<open>s\<close> without the longest run, at its start, of elements of \<open>ws\<close>.\<close>

fun dropLeading :: "string list \<Rightarrow> string \<Rightarrow> string" where
  "dropLeading ws [] = []"
| "dropLeading ws (c # cs) =
     (case find (startsWith (c # cs)) ws of
        None \<Rightarrow> c # cs
      | Some w \<Rightarrow> dropLeading ws (drop (length w - 1) cs))"

text \<open>\<open>s.trim()\<close>: the white space is removed at the start, then, read backwards, at the end.\<close>

definition js_trim :: "string \<Rightarrow> string" where
  "js_trim s = rev (dropLeading (map rev whiteSpaces) (rev (dropLeading whiteSpaces s)))"

definition endsWith :: "string \<Rightarrow> string \<Rightarrow> bool" where
  "endsWith s sub = (length sub \<le> length s \<and> drop (length s - length sub) s = sub)"

text \<open>\<open>s.includes(sub)\<close>: \<open>sub\<close> occurs in \<open>s\<close> as a contiguous run.\<close>

fun js_includes :: "string \<Rightarrow> string \<Rightarrow> bool" where
  "js_includes [] sub = (sub = [])"
| "js_includes (c # cs) sub = (startsWith (c # cs) sub \<or> js_includes cs sub)"

text \<open>\<open>s.split('\n')\<close>: always at least one piece; the empty string gives one empty piece.\<close>

fun js_split_nl :: "string \<Rightarrow> string list" where
  "js_split_nl [] = [[]]"
| "js_split_nl (c # cs) =
     (if c = CHR 0x0A then [] # js_split_nl cs
      else (case js_split_nl cs of [] \<Rightarrow> [[c]] | l # ls \<Rightarrow> (c # l) # ls))"

text \<open>Decimal rendering of a non-negative integer, as a template literal prints it.\<close>

fun showNat :: "nat \<Rightarrow> string" where
  "showNat n = (if n < 10 then [char_of (48 + n)] else showNat (n div 10) @ [char_of (48 + n mod 10)])"

declare showNat.simps [simp del]

definition showInt :: "int \<Rightarrow> string" where
  "showInt i = (if i < 0 then CHR ''-'' # showNat (nat (- i)) else showNat (nat i))"

subsection \<open>Numbers\<close>

text \<open>
  A JavaScript number is a finite value, one of the two infinities, or NaN. Finite
  arithmetic is taken exact (a real number): rounding and overflow of doubles are not
  modelled, and the two zeros are one. What is modelled is everything the scoring and
  usage code can observe of the special values: \<open>0/0\<close> is NaN, a positive count over
  \<open>0\<close> is \<open>Infinity\<close>, NaN is absorbing for \<open>+\<close>, \<open>-\<close>, \<open>*\<close>, \<open>/\<close>, \<open>Math.min\<close> and
  \<open>Math.max\<close>, and every comparison with NaN is false.
\<close>

datatype jsnum = Fin real | PInf | NInf | NaN

fun js_neg :: "jsnum \<Rightarrow> jsnum" where
  "js_neg (Fin a) = Fin (- a)"
| "js_neg PInf = NInf"
| "js_neg NInf = PInf"
| "js_neg NaN = NaN"

fun js_add :: "jsnum \<Rightarrow> jsnum \<Rightarrow> jsnum" where
  "js_add NaN _ = NaN"
| "js_add _ NaN = NaN"
| "js_add (Fin a) (Fin b) = Fin (a + b)"
| "js_add PInf NInf = NaN"
| "js_add NInf PInf = NaN"
| "js_add PInf _ = PInf"
| "js_add NInf _ = NInf"
| "js_add _ PInf = PInf"
| "js_add _ NInf = NInf"

definition js_sub :: "jsnum \<Rightarrow> jsnum \<Rightarrow> jsnum" where
  "js_sub a b = js_add a (js_neg b)"

text \<open>The sign of a number: \<open>1\<close>, \<open>-1\<close> or \<open>0\<close>; used for products and quotients with infinities.\<close>

fun js_sign :: "jsnum \<Rightarrow> int" where
  "js_sign (Fin a) = (if a > 0 then 1 else if a < 0 then - 1 else 0)"
| "js_sign PInf = 1"
| "js_sign NInf = - 1"
| "js_sign NaN = 0"

definition js_inf :: "int \<Rightarrow> jsnum" where
  "js_inf sg = (if sg > 0 then PInf else if sg < 0 then NInf else NaN)"

fun js_mul :: "jsnum \<Rightarrow> jsnum \<Rightarrow> jsnum" where
  "js_mul NaN _ = NaN"
| "js_mul _ NaN = NaN"
| "js_mul (Fin a) (Fin b) = Fin (a * b)"
| "js_mul a b = js_inf (js_sign a * js_sign b)"

fun js_div :: "jsnum \<Rightarrow> jsnum \<Rightarrow> jsnum" where
  "js_div NaN _ = NaN"
| "js_div _ NaN = NaN"
| "js_div (Fin a) (Fin b) = (if b = 0 then js_inf (js_sign (Fin a)) else Fin (a / b))"
| "js_div (Fin a) _ = Fin 0"
| "js_div a (Fin b) = js_inf (js_sign a * (if b < 0 then - 1 else 1))"
| "js_div _ _ = NaN"

text \<open>\<open>a >= b\<close> and \<open>a > b\<close>: false as soon as one side is NaN.\<close>

fun js_ge :: "jsnum \<Rightarrow> jsnum \<Rightarrow> bool" where
  "js_ge NaN _ = False"
| "js_ge _ NaN = False"
| "js_ge (Fin a) (Fin b) = (a \<ge> b)"
| "js_ge PInf _ = True"
| "js_ge _ NInf = True"
| "js_ge _ _ = False"

fun js_gt :: "jsnum \<Rightarrow> jsnum \<Rightarrow> bool" where
  "js_gt NaN _ = False"
| "js_gt _ NaN = False"
| "js_gt (Fin a) (Fin b) = (a > b)"
| "js_gt PInf PInf = False"
| "js_gt NInf NInf = False"
| "js_gt PInf _ = True"
| "js_gt _ NInf = True"
| "js_gt _ _ = False"

fun Math_min :: "jsnum \<Rightarrow> jsnum \<Rightarrow> jsnum" where
  "Math_min NaN _ = NaN"
| "Math_min _ NaN = NaN"
| "Math_min a b = (if js_ge a b then b else a)"

fun Math_max :: "jsnum \<Rightarrow> jsnum \<Rightarrow> jsnum" where
  "Math_max NaN _ = NaN"
| "Math_max _ NaN = NaN"
| "Math_max a b = (if js_ge a b then a else b)"

text \<open>Truthiness of a number: \<open>0\<close> and NaN are falsy.\<close>

fun js_truthy :: "jsnum \<Rightarrow> bool" where
  "js_truthy (Fin a) = (a \<noteq> 0)"
| "js_truthy NaN = False"
| "js_truthy _ = True"

subsection \<open>Errors\<close>

text \<open>
  A thrown value as the code reads it: an optional \<open>code\<close> (a string such as
  \<open>ECONNREFUSED\<close>), an optional numeric \<open>statusCode\<close>, and a \<open>message\<close>.
\<close>

record js_error =
  err_code :: "string option"
  err_statusCode :: "int option"
  err_message :: string

text \<open>The outcome of an awaited call: a value, or a thrown value (\<open>None\<close> is \<open>undefined\<close>).\<close>

datatype 'a outcome = Returned 'a | Threw "js_error option"

section \<open>Resilient call executor (utils/retry)\<close>

text \<open>
  The options as the caller passes them: every field may be absent. The number of
  attempts is a non-negative integer; the delays and the multiplier are finite numbers.
\<close>

record RetryOptions =
  maxAttempts :: "nat option"
  initialDelay :: "real option"
  maxDelay :: "real option"
  backoffMultiplier :: "real option"
  shouldRetry :: "(js_error \<Rightarrow> bool) option"

text \<open>\<open>DEFAULT_OPTIONS.shouldRetry\<close>, with its tests in the order of the source.\<close>

definition DEFAULT_shouldRetry :: "js_error \<Rightarrow> bool" where
  "DEFAULT_shouldRetry error =
     (if err_code error = Some ''ECONNREFUSED'' then True
      else if err_code error = Some ''ETIMEDOUT'' then True
      else if err_code error = Some ''ENOTFOUND'' then True
      else if (case err_statusCode error of None \<Rightarrow> False | Some s \<Rightarrow> s \<noteq> 0 \<and> s \<ge> 500) then True
      else if (case err_statusCode error of None \<Rightarrow> False | Some s \<Rightarrow> s \<noteq> 0 \<and> s \<ge> 400 \<and> s < 500) then False
      else True)"

text \<open>\<open>opts = { ...DEFAULT_OPTIONS, ...options }\<close>: a field that is given wins over the default.\<close>

definition opt_maxAttempts :: "RetryOptions \<Rightarrow> nat" where
  "opt_maxAttempts options = (case maxAttempts options of Some n \<Rightarrow> n | None \<Rightarrow> 3)"

definition opt_initialDelay :: "RetryOptions \<Rightarrow> real" where
  "opt_initialDelay options = (case initialDelay options of Some d \<Rightarrow> d | None \<Rightarrow> 1000)"

definition opt_maxDelay :: "RetryOptions \<Rightarrow> real" where
  "opt_maxDelay options = (case maxDelay options of Some d \<Rightarrow> d | None \<Rightarrow> 10000)"

definition opt_backoffMultiplier :: "RetryOptions \<Rightarrow> real" where
  "opt_backoffMultiplier options = (case backoffMultiplier options of Some b \<Rightarrow> b | None \<Rightarrow> 2)"

definition opt_shouldRetry :: "RetryOptions \<Rightarrow> js_error \<Rightarrow> bool" where
  "opt_shouldRetry options = (case shouldRetry options of Some f \<Rightarrow> f | None \<Rightarrow> DEFAULT_shouldRetry)"

text \<open>
  What a run of \<open>withRetry\<close> does to the outside world, in order: the \<open>k\<close>-th invocation
  of the wrapped operation, and each \<open>sleep(ms)\<close>.
\<close>

datatype retry_event = Invoke nat | Sleep real

text \<open>
  The wrapped operation \<open>fn\<close> is effectful: \<open>fn k\<close> is what its \<open>k\<close>-th invocation
  (counted from 1) yields, \<open>Inl\<close> a thrown error or \<open>Inr\<close> a value. The \<open>for\<close> loop
  is the recursion on \<open>attempt\<close>; \<open>lastError\<close> is \<open>None\<close> while it is \<open>undefined\<close>.
\<close>

function withRetry_loop ::
  "RetryOptions \<Rightarrow> (nat \<Rightarrow> js_error + 'a) \<Rightarrow> nat \<Rightarrow> real \<Rightarrow> js_error option
     \<Rightarrow> 'a outcome \<times> retry_event list" where
  "withRetry_loop opts fn attempt delay lastError =
     (if attempt \<le> opt_maxAttempts opts then
        (case fn attempt of
           Inr v \<Rightarrow> (Returned v, [Invoke attempt])
         | Inl error \<Rightarrow>
             if attempt = opt_maxAttempts opts then (Threw (Some error), [Invoke attempt])
             else if \<not> opt_shouldRetry opts error then (Threw (Some error), [Invoke attempt])
             else apsnd (\<lambda>t. Invoke attempt # Sleep delay # t)
                    (withRetry_loop opts fn (attempt + 1)
                       (min (delay * opt_backoffMultiplier opts) (opt_maxDelay opts)) (Some error)))
      else (Threw lastError, []))"
  by pat_completeness auto
termination
  by (relation "measure (\<lambda>(opts, fn, attempt, delay, lastError). opt_maxAttempts opts + 1 - attempt)") auto

declare withRetry_loop.simps [simp del]

definition withRetry :: "(nat \<Rightarrow> js_error + 'a) \<Rightarrow> RetryOptions \<Rightarrow> 'a outcome \<times> retry_event list" where
  "withRetry fn options = withRetry_loop options fn 1 (opt_initialDelay options) None"

text \<open>The sleeps of a run, in order, and the number of invocations.\<close>

fun sleeps :: "retry_event list \<Rightarrow> real list" where
  "sleeps [] = []"
| "sleeps (Invoke k # t) = sleeps t"
| "sleeps (Sleep d # t) = d # sleeps t"

fun invocations :: "retry_event list \<Rightarrow> nat" where
  "invocations [] = 0"
| "invocations (Invoke k # t) = Suc (invocations t)"
| "invocations (Sleep d # t) = invocations t"

text \<open>The options object \<open>{ maxAttempts: n }\<close>.\<close>

definition onlyMaxAttempts :: "nat \<Rightarrow> RetryOptions" where
  "onlyMaxAttempts n = \<lparr>maxAttempts = Some n, initialDelay = None, maxDelay = None,
     backoffMultiplier = None, shouldRetry = None\<rparr>"


section \<open>Data model (types)\<close>

text \<open>
  Objects are records; an optional property, or one read through \<open>?.\<close>, is an
  \<open>option\<close>. Record fields live in one name space, so a field name that several
  interfaces share carries a short prefix of its interface.
\<close>

datatype Severity = Critical | High | Medium | Low | Info

record StateWaiting =
  w_reason :: "string option"
  w_message :: "string option"

record StateTerminated =
  t_exitCode :: int
  t_reason :: "string option"

record ContainerState =
  running :: "string option"
  waiting :: "StateWaiting option"
  terminated :: "StateTerminated option"

text \<open>A container status as the cluster API returns it, and as \<open>parseContainerStatuses\<close> keeps it.\<close>

record V1ContainerStatus =
  v1_name :: string
  v1_ready :: "bool option"
  v1_restartCount :: "nat option"
  v1_state :: "ContainerState option"
  v1_lastState :: "ContainerState option"
  v1_image :: string
  v1_imageID :: "string option"

record ContainerStatus =
  cs_name :: string
  cs_ready :: bool
  cs_restartCount :: nat
  cs_state :: ContainerState
  cs_lastState :: "ContainerState option"
  cs_image :: string
  cs_imageID :: "string option"

record SpecContainer =
  sc_name :: string
  requests_cpu :: "string option"
  requests_memory :: "string option"
  limits_cpu :: "string option"
  limits_memory :: "string option"

text \<open>
  The pod object, with the optional chains of the source flattened:
  \<open>status_phase\<close> is \<open>pod.status?.phase\<close>, \<open>spec_containers\<close> is
  \<open>pod.spec?.containers\<close>, and so on.
\<close>

record Pod =
  meta_name :: "string option"
  meta_namespace :: "string option"
  spec_containers :: "SpecContainer list option"
  spec_nodeName :: "string option"
  status_phase :: "string option"
  status_startTime :: "string option"
  status_hostIP :: "string option"
  status_podIP :: "string option"
  status_containerStatuses :: "V1ContainerStatus list option"

text \<open>
  An event as the cluster API returns it, and as \<open>parseEvents\<close> keeps it. The fields
  that the detectors read without a guard (type, reason, message and the timestamps) are
  present, as the interface \<open>K8sEvent\<close> declares them.
\<close>

record V1Event =
  e_type :: string
  e_reason :: string
  e_message :: string
  e_count :: "nat option"
  e_firstTimestamp :: string
  e_lastTimestamp :: string
  e_source_component :: "string option"

record K8sEvent =
  ev_type :: string
  ev_reason :: string
  ev_message :: string
  ev_count :: nat
  ev_firstTimestamp :: string
  ev_lastTimestamp :: string
  ev_source :: "string option"

record ResourceRef =
  kind :: string
  res_name :: "string option"
  res_namespace :: "string option"

record DiagnosticIssue =
  issue_type :: string
  severity :: Severity
  message :: string
  rootCause :: string
  solution :: string
  resource :: "ResourceRef option"
  relevantLogs :: "string list option"
  relatedEvents :: "K8sEvent list option"
  timestamp :: string

record ResourceUsage =
  cpu_current :: "jsnum option"
  cpu_requested :: jsnum
  cpu_limit :: jsnum
  cpu_usagePercent :: "jsnum option"
  isThrottled :: bool
  memory_current :: "jsnum option"
  memory_requested :: jsnum
  memory_limit :: jsnum
  memory_usagePercent :: "jsnum option"
  isOOMRisk :: bool

record PodInfo =
  pi_name :: string
  pi_namespace :: string
  pi_phase :: string
  pi_startTime :: "string option"
  pi_nodeName :: "string option"
  pi_hostIP :: "string option"
  pi_podIP :: "string option"

record PodDiagnostics =
  pd_podInfo :: PodInfo
  pd_containers :: "ContainerStatus list"
  pd_issues :: "DiagnosticIssue list"
  pd_resources :: ResourceUsage
  pd_events :: "K8sEvent list"
  pd_summary :: string
  pd_healthScore :: int

record ContainerMetric =
  usage_cpu :: "string option"
  usage_memory :: "string option"

record PodMetric =
  pm_name :: "string option"
  pm_containers :: "ContainerMetric list option"

record PodMetricsList =
  pm_items :: "PodMetric list option"

section \<open>The runtime and the cluster client\<close>

text \<open>
  Builtins of the JavaScript runtime that the code calls and this development does not
  define enter as a parameter: the two number parsers, the rendering of a number in a
  template literal and by \<open>toFixed(1)\<close>, the reading of a date string as a time
  (\<open>new Date(s).getTime()\<close>) and the clock (\<open>new Date().toISOString()\<close>, taken as
  one reading for a run).
\<close>

record js_runtime =
  parseInt :: "string \<Rightarrow> jsnum"
  parseFloat :: "string \<Rightarrow> jsnum"
  numberToString :: "jsnum \<Rightarrow> string"
  toFixed1 :: "jsnum \<Rightarrow> string"
  dateGetTime :: "string \<Rightarrow> jsnum"
  now :: string

text \<open>
  The cluster client. Each call is effectful: besides its arguments it takes the number
  of the invocation within the retry run that issues it. A log call also yields the
  text it wrote to the stream before it settled.
\<close>

record CoreV1Api =
  readNamespacedPod :: "string \<Rightarrow> string \<Rightarrow> nat \<Rightarrow> js_error + Pod"
  listNamespacedEvent :: "string \<Rightarrow> string \<Rightarrow> nat \<Rightarrow> js_error + V1Event list"

record LogOptions =
  previous :: "bool option"
  tailLines :: "nat option"

type_synonym LogApi = "string \<Rightarrow> string \<Rightarrow> string \<Rightarrow> LogOptions \<Rightarrow> nat \<Rightarrow> string \<times> (js_error + unit)"

type_synonym MetricsApi = "string \<Rightarrow> nat \<Rightarrow> js_error + PodMetricsList"

text \<open>\<open>new Error(msg)\<close>, and the \<open>TypeError\<close> of reading a property of \<open>undefined\<close>.\<close>

definition newError :: "string \<Rightarrow> js_error" where
  "newError msg = \<lparr>err_code = None, err_statusCode = None, err_message = msg\<rparr>"

definition undefinedProperty :: "string \<Rightarrow> js_error" where
  "undefinedProperty p =
     newError (''Cannot read properties of undefined (reading '' @ [CHR 0x27] @ p @ [CHR 0x27] @ '')'')"

text \<open>A template literal prints an absent string as \<open>undefined\<close>.\<close>

definition tmpl :: "string option \<Rightarrow> string" where
  "tmpl x = (case x of None \<Rightarrow> ''undefined'' | Some s \<Rightarrow> s)"

text \<open>\<open>x || d\<close> on strings: the empty string is falsy.\<close>

definition orElse :: "string option \<Rightarrow> string \<Rightarrow> string" where
  "orElse x d = (case x of None \<Rightarrow> d | Some s \<Rightarrow> if s = [] then d else s)"

definition nl :: string where
  "nl = [CHR 0x0A]"

definition dq :: string where
  "dq = [CHR 0x22]"

definition bslash :: string where
  "bslash = [CHR 0x5C]"

text \<open>
  \<open>Array.prototype.sort\<close> with a comparator: a stable insertion sort, where \<open>a\<close>
  goes after \<open>b\<close> exactly when the comparator's value is greater than \<open>0\<close>.
\<close>

fun js_insert :: "('a \<Rightarrow> 'a \<Rightarrow> jsnum) \<Rightarrow> 'a \<Rightarrow> 'a list \<Rightarrow> 'a list" where
  "js_insert cmp x [] = [x]"
| "js_insert cmp x (y # ys) = (if js_gt (cmp x y) (Fin 0) then y # js_insert cmp x ys else x # y # ys)"

definition js_sort :: "('a \<Rightarrow> 'a \<Rightarrow> jsnum) \<Rightarrow> 'a list \<Rightarrow> 'a list" where
  "js_sort cmp xs = foldr (js_insert cmp) xs []"

fun Math_ceil :: "jsnum \<Rightarrow> jsnum" where
  "Math_ceil (Fin a) = Fin (of_int \<lceil>a\<rceil>)"
| "Math_ceil x = x"

section \<open>Pod diagnostics\<close>

subsection \<open>Parsing the API objects\<close>

definition emptyState :: ContainerState where
  "emptyState = \<lparr>running = None, waiting = None, terminated = None\<rparr>"

definition parseContainerStatuses :: "V1ContainerStatus list \<Rightarrow> ContainerStatus list" where
  "parseContainerStatuses statuses =
     map (\<lambda>s. \<lparr>cs_name = v1_name s,
               cs_ready = (case v1_ready s of None \<Rightarrow> False | Some b \<Rightarrow> b),
               cs_restartCount = (case v1_restartCount s of None \<Rightarrow> 0 | Some n \<Rightarrow> n),
               cs_state = (case v1_state s of None \<Rightarrow> emptyState | Some st \<Rightarrow> st),
               cs_lastState = v1_lastState s,
               cs_image = v1_image s,
               cs_imageID = v1_imageID s\<rparr>) statuses"

definition parseEvents :: "js_runtime \<Rightarrow> V1Event list \<Rightarrow> K8sEvent list" where
  "parseEvents rt items =
     js_sort (\<lambda>a b. js_sub (dateGetTime rt (ev_lastTimestamp b)) (dateGetTime rt (ev_lastTimestamp a)))
       (map (\<lambda>e. \<lparr>ev_type = e_type e,
                  ev_reason = e_reason e,
                  ev_message = e_message e,
                  ev_count = (case e_count e of None \<Rightarrow> 1 | Some n \<Rightarrow> if n = 0 then 1 else n),
                  ev_firstTimestamp = e_firstTimestamp e,
                  ev_lastTimestamp = e_lastTimestamp e,
                  ev_source = e_source_component e\<rparr>) items)"

text \<open>The resource reference \<open>{kind: 'Pod', name: pod.metadata?.name, namespace: pod.metadata?.namespace}\<close>.\<close>

definition podRef :: "Pod \<Rightarrow> ResourceRef option" where
  "podRef pod = Some \<lparr>kind = ''Pod'', res_name = meta_name pod, res_namespace = meta_namespace pod\<rparr>"

subsection \<open>Lookup tables\<close>

definition getWaitingSolution :: "string option \<Rightarrow> string" where
  "getWaitingSolution reason =
     (if reason = Some ''CreateContainerConfigError'' then ''Check container configuration (ConfigMap, Secret, etc.)''
      else if reason = Some ''InvalidImageName'' then ''Verify image name format''
      else if reason = Some ''CreateContainerError'' then ''Check container creation settings''
      else ''Check logs and events to identify the cause'')"

definition getTerminatedSolution :: "int \<Rightarrow> string" where
  "getTerminatedSolution exitCode =
     (if exitCode = 1 then ''Check application logs to fix errors''
      else if exitCode = 137 then ''Increase memory limit (OOM killed)''
      else if exitCode = 143 then ''Verify graceful shutdown implementation''
      else if exitCode = 126 then ''Check executable permissions (chmod +x)''
      else if exitCode = 127 then ''Verify CMD/ENTRYPOINT path''
      else ''Check logs for exit code '' @ showInt exitCode)"

subsection \<open>Quantities\<close>

definition parseCPU :: "js_runtime \<Rightarrow> string \<Rightarrow> jsnum" where
  "parseCPU rt cpu =
     (if endsWith cpu ''m'' then parseInt rt (butlast cpu)
      else js_mul (parseFloat rt cpu) (Fin 1000))"

definition memoryUnits :: "(string \<times> real) list" where
  "memoryUnits = [(''Ki'', 1024), (''Mi'', 1024 * 1024), (''Gi'', 1024 * 1024 * 1024),
                  (''K'', 1000), (''M'', 1000 * 1000), (''G'', 1000 * 1000 * 1000)]"

fun parseMemoryUnits :: "js_runtime \<Rightarrow> string \<Rightarrow> (string \<times> real) list \<Rightarrow> jsnum" where
  "parseMemoryUnits rt mem [] = parseFloat rt mem"
| "parseMemoryUnits rt mem ((unit, multiplier) # rest) =
     (if endsWith mem unit
      then js_mul (parseFloat rt (take (length mem - length unit) mem)) (Fin multiplier)
      else parseMemoryUnits rt mem rest)"

definition parseMemory :: "js_runtime \<Rightarrow> string \<Rightarrow> jsnum" where
  "parseMemory rt mem = parseMemoryUnits rt mem memoryUnits"

definition parseMetricCPU :: "js_runtime \<Rightarrow> string \<Rightarrow> jsnum" where
  "parseMetricCPU rt cpu =
     (if endsWith cpu ''n'' then js_div (parseInt rt (butlast cpu)) (Fin 1000000)
      else if endsWith cpu ''m'' then parseInt rt (butlast cpu)
      else js_mul (parseFloat rt cpu) (Fin 1000))"

definition parseMetricMemory :: "js_runtime \<Rightarrow> string \<Rightarrow> jsnum" where
  "parseMetricMemory rt mem =
     (if endsWith mem ''Ki'' then js_mul (parseInt rt (take (length mem - 2) mem)) (Fin 1024)
      else if endsWith mem ''Mi'' then js_mul (js_mul (parseInt rt (take (length mem - 2) mem)) (Fin 1024)) (Fin 1024)
      else if endsWith mem ''Gi'' then js_mul (js_mul (js_mul (parseInt rt (take (length mem - 2) mem)) (Fin 1024)) (Fin 1024)) (Fin 1024)
      else parseInt rt mem)"

subsection \<open>Detectors\<close>

definition waitingIssue :: "js_runtime \<Rightarrow> Pod \<Rightarrow> ContainerStatus \<Rightarrow> StateWaiting \<Rightarrow> DiagnosticIssue" where
  "waitingIssue rt pod container w =
     \<lparr>issue_type = ''Container Waiting: '' @ tmpl (w_reason w),
      severity = High,
      message = ''Container '' @ dq @ cs_name container @ dq @ '' is in '' @ tmpl (w_reason w) @ '' state'',
      rootCause = orElse (w_message w) ''Unknown reason'',
      solution = getWaitingSolution (w_reason w),
      resource = podRef pod,
      relevantLogs = None,
      relatedEvents = None,
      timestamp = now rt\<rparr>"

definition terminatedIssue :: "js_runtime \<Rightarrow> Pod \<Rightarrow> ContainerStatus \<Rightarrow> StateTerminated \<Rightarrow> DiagnosticIssue" where
  "terminatedIssue rt pod container t =
     \<lparr>issue_type = ''Container Terminated'',
      severity = High,
      message = ''Container '' @ dq @ cs_name container @ dq @ '' terminated with exit code '' @ showInt (t_exitCode t),
      rootCause = orElse (t_reason t) ''Unknown reason'',
      solution = getTerminatedSolution (t_exitCode t),
      resource = podRef pod,
      relevantLogs = None,
      relatedEvents = None,
      timestamp = now rt\<rparr>"

text \<open>
  One round of the loop of \<open>detectContainerIssues\<close>. The \<open>continue\<close> on an image-pull
  reason leaves the round before the check of the terminated state.
\<close>

definition containerIssues :: "js_runtime \<Rightarrow> Pod \<Rightarrow> ContainerStatus \<Rightarrow> DiagnosticIssue list" where
  "containerIssues rt pod container =
     (let checkTerminated =
            (case terminated (cs_state container) of
               None \<Rightarrow> []
             | Some t \<Rightarrow> if t_exitCode t \<noteq> 0 then [terminatedIssue rt pod container t] else [])
      in case waiting (cs_state container) of
           None \<Rightarrow> checkTerminated
         | Some w \<Rightarrow>
             if w_reason w = Some ''ErrImagePull'' \<or> w_reason w = Some ''ImagePullBackOff'' then []
             else waitingIssue rt pod container w # checkTerminated)"

definition detectContainerIssues :: "js_runtime \<Rightarrow> Pod \<Rightarrow> ContainerStatus list \<Rightarrow> K8sEvent list \<Rightarrow> DiagnosticIssue list" where
  "detectContainerIssues rt pod containers unused_events = concat (map (containerIssues rt pod) containers)"

definition detectImagePullIssues :: "js_runtime \<Rightarrow> Pod \<Rightarrow> K8sEvent list \<Rightarrow> DiagnosticIssue list" where
  "detectImagePullIssues rt pod events =
     (case filter (\<lambda>e. ev_reason e = ''Failed'' \<and> js_includes (ev_message e) ''pull'') events of
        [] \<Rightarrow> []
      | event # _ \<Rightarrow>
          (let (rootCause', solution') =
                 (if js_includes (ev_message event) ''not found'' \<or> js_includes (ev_message event) ''manifest unknown''
                  then (''Image or tag does not exist'',
                        ''1. Verify image name and tag'' @ nl @ ''2. Test locally with docker pull <image>'')
                  else if js_includes (ev_message event) ''unauthorized'' \<or> js_includes (ev_message event) ''authentication''
                  then (''Image registry authentication failed'',
                        ''```bash'' @ nl @ ''kubectl create secret docker-registry regcred '' @ bslash @ nl @ ''  --docker-server=<registry> '' @ bslash @ nl @ ''  --docker-username=<username> '' @ bslash @ nl @ ''  --docker-password=<password>'' @ nl @ nl @ ''# Add to Pod spec:'' @ nl @ ''spec:'' @ nl @ ''  imagePullSecrets:'' @ nl @ ''  - name: regcred'' @ nl @ ''```'')
                  else if js_includes (ev_message event) ''timeout''
                  then (''Network timeout - Cannot access registry'',
                        ''1. Check cluster network connectivity'' @ nl @ ''2. Verify firewall/proxy settings'' @ nl @ ''3. Verify registry URL is correct'')
                  else (''Cannot download image'', []))
           in [\<lparr>issue_type = ''ImagePullBackOff'',
                severity = Critical,
                message = ''Cannot pull container image'',
                rootCause = rootCause',
                solution = solution',
                resource = podRef pod,
                relevantLogs = None,
                relatedEvents = Some [event],
                timestamp = now rt\<rparr>]))"

definition detectResourceIssues :: "js_runtime \<Rightarrow> Pod \<Rightarrow> ResourceUsage \<Rightarrow> DiagnosticIssue list" where
  "detectResourceIssues rt pod resources =
     (case cpu_usagePercent resources of
        None \<Rightarrow> []
      | Some p \<Rightarrow>
          if isThrottled resources then
            [\<lparr>issue_type = ''High CPU Usage'',
              severity = High,
              message = ''CPU usage is high ('' @ toFixed1 rt p @ ''%)'',
              rootCause = ''CPU limit may be too low for current workload'',
              solution = ''Increase CPU limit or optimize application:'' @ nl @ ''```yaml'' @ nl @ ''resources:'' @ nl @ ''  limits:'' @ nl @ ''    cpu: '' @ dq
                @ numberToString rt (Math_ceil (js_mul
                    (if js_truthy (cpu_limit resources) then cpu_limit resources else Fin 1000) (Fin 1.5)))
                @ ''m'' @ dq @ ''  # Increased by 50%'' @ nl @ ''```'',
              resource = podRef pod,
              relevantLogs = None,
              relatedEvents = None,
              timestamp = now rt\<rparr>]
          else [])
     @
     (case memory_usagePercent resources of
        None \<Rightarrow> []
      | Some p \<Rightarrow>
          if isOOMRisk resources then
            [\<lparr>issue_type = ''OOM Risk'',
              severity = Critical,
              message = ''Memory usage is critically high ('' @ toFixed1 rt p @ ''%)'',
              rootCause = ''Pod is at risk of OOM kill - memory usage exceeds 90% of limit'',
              solution = ''Increase memory limit immediately:'' @ nl @ ''```yaml'' @ nl @ ''resources:'' @ nl @ ''  limits:'' @ nl @ ''    memory: '' @ dq
                @ numberToString rt (Math_ceil (js_mul (js_div
                    (if js_truthy (memory_limit resources) then memory_limit resources else Fin (512 * 1024 * 1024))
                    (Fin (1024 * 1024))) (Fin 1.5)))
                @ ''Mi'' @ dq @ ''  # Increased by 50%'' @ nl @ ''```'',
              resource = podRef pod,
              relevantLogs = None,
              relatedEvents = None,
              timestamp = now rt\<rparr>]
          else [])
     @
     (if \<not> js_truthy (cpu_limit resources) then
        [\<lparr>issue_type = ''Missing CPU Limit'',
          severity = Medium,
          message = ''CPU limit is not set'',
          rootCause = ''CPU usage can increase without limit'',
          solution = ''```yaml'' @ nl @ ''resources:'' @ nl @ ''  limits:'' @ nl @ ''    cpu: '' @ dq @ ''1000m'' @ dq @ nl @ ''  requests:'' @ nl @ ''    cpu: '' @ dq @ ''100m'' @ dq @ nl @ ''```'',
          resource = podRef pod,
          relevantLogs = None,
          relatedEvents = None,
          timestamp = now rt\<rparr>]
      else [])
     @
     (if \<not> js_truthy (memory_limit resources) then
        [\<lparr>issue_type = ''Missing Memory Limit'',
          severity = High,
          message = ''Memory limit is not set'',
          rootCause = ''Memory leak can affect entire node'',
          solution = ''```yaml'' @ nl @ ''resources:'' @ nl @ ''  limits:'' @ nl @ ''    memory: '' @ dq @ ''512Mi'' @ dq @ nl @ ''  requests:'' @ nl @ ''    memory: '' @ dq @ ''128Mi'' @ dq @ nl @ ''```'',
          resource = podRef pod,
          relevantLogs = None,
          relatedEvents = None,
          timestamp = now rt\<rparr>]
      else [])"

definition detectVolumeIssues :: "js_runtime \<Rightarrow> Pod \<Rightarrow> K8sEvent list \<Rightarrow> DiagnosticIssue list" where
  "detectVolumeIssues rt pod events =
     map (\<lambda>event.
            \<lparr>issue_type = ''Volume Mount Issue'',
             severity = High,
             message = ''Volume mount failed'',
             rootCause = ev_message event,
             solution = ''1. Verify PVC is in Bound state'' @ nl @ ''2. Verify storage class is correct'' @ nl @ ''3. Check status with kubectl describe pvc <pvc-name>'',
             resource = podRef pod,
             relevantLogs = None,
             relatedEvents = Some [event],
             timestamp = now rt\<rparr>)
       (filter (\<lambda>event. ev_type event = ''Warning'')
          (filter (\<lambda>e. js_includes (ev_message e) ''volume'' \<or> js_includes (ev_message e) ''mount'') events))"

definition detectNetworkIssues :: "js_runtime \<Rightarrow> Pod \<Rightarrow> K8sEvent list \<Rightarrow> DiagnosticIssue list" where
  "detectNetworkIssues rt pod events =
     map (\<lambda>event.
            \<lparr>issue_type = ''Network Configuration Issue'',
             severity = High,
             message = ''Network configuration problem'',
             rootCause = ev_message event,
             solution = ''1. Check CNI plugin status'' @ nl @ ''2. Check network policy'' @ nl @ ''3. Verify Pod CIDR range'',
             resource = podRef pod,
             relevantLogs = None,
             relatedEvents = Some [event],
             timestamp = now rt\<rparr>)
       (filter (\<lambda>event. ev_type event = ''Warning'')
          (filter (\<lambda>e. js_includes (ev_message e) ''network'' \<or> js_includes (ev_message e) ''CNI'') events))"

subsection \<open>Resource usage\<close>

text \<open>The object returned by \<open>analyzeResourceUsage\<close>, from the values of its local variables.\<close>

definition resourceUsageResult ::
  "jsnum \<Rightarrow> jsnum \<Rightarrow> jsnum \<Rightarrow> jsnum \<Rightarrow> jsnum option \<Rightarrow> jsnum option \<Rightarrow> jsnum option \<Rightarrow> jsnum option
     \<Rightarrow> ResourceUsage" where
  "resourceUsageResult totalCpuRequest totalCpuLimit totalMemRequest totalMemLimit
       currentCpu currentMem cpuUsagePercent memUsagePercent =
     \<lparr>cpu_current = currentCpu,
      cpu_requested = totalCpuRequest,
      cpu_limit = totalCpuLimit,
      cpu_usagePercent = cpuUsagePercent,
      isThrottled = (case cpuUsagePercent of None \<Rightarrow> False | Some p \<Rightarrow> js_ge p (Fin 80)),
      memory_current = currentMem,
      memory_requested = totalMemRequest,
      memory_limit = totalMemLimit,
      memory_usagePercent = memUsagePercent,
      isOOMRisk = (case memUsagePercent of None \<Rightarrow> False | Some p \<Rightarrow> js_ge p (Fin 90))\<rparr>"

text \<open>The options of the metrics fetch; its \<open>shouldRetry\<close> gives up on a 404.\<close>

definition metricsRetryOptions :: RetryOptions where
  "metricsRetryOptions =
     \<lparr>maxAttempts = Some 2, initialDelay = Some 500, maxDelay = None, backoffMultiplier = None,
      shouldRetry = Some (\<lambda>error. if err_statusCode error = Some 404 then False else True)\<rparr>"

text \<open>
  The metrics fetch sits in a \<open>try\<close>: a thrown error leaves the four metric
  variables \<open>undefined\<close>. The \<open>catch\<close> block reads \<open>error.statusCode\<close>, which
  itself throws when the thrown value is \<open>undefined\<close>.
\<close>

definition analyzeResourceUsage ::
  "js_runtime \<Rightarrow> Pod \<Rightarrow> string \<Rightarrow> string \<Rightarrow> MetricsApi option \<Rightarrow> js_error + ResourceUsage" where
  "analyzeResourceUsage rt pod namespace podName metricsApi =
     (let containers = (case spec_containers pod of None \<Rightarrow> [] | Some cs \<Rightarrow> cs);
          totalCpuRequest = foldl (\<lambda>total container. js_add total (parseCPU rt (orElse (requests_cpu container) ''0''))) (Fin 0) containers;
          totalCpuLimit = foldl (\<lambda>total container. js_add total (parseCPU rt (orElse (limits_cpu container) ''0''))) (Fin 0) containers;
          totalMemRequest = foldl (\<lambda>total container. js_add total (parseMemory rt (orElse (requests_memory container) ''0''))) (Fin 0) containers;
          totalMemLimit = foldl (\<lambda>total container. js_add total (parseMemory rt (orElse (limits_memory container) ''0''))) (Fin 0) containers;
          result = resourceUsageResult totalCpuRequest totalCpuLimit totalMemRequest totalMemLimit
      in case metricsApi of
           None \<Rightarrow> Inr (result None None None None)
         | Some getPodMetrics \<Rightarrow>
             (case fst (withRetry (getPodMetrics namespace) metricsRetryOptions) of
                Threw None \<Rightarrow> Inl (undefinedProperty ''statusCode'')
              | Threw (Some error) \<Rightarrow> Inr (result None None None None)
              | Returned metrics \<Rightarrow>
                  (case find (\<lambda>item. pm_name item = Some podName)
                          (case pm_items metrics of None \<Rightarrow> [] | Some items \<Rightarrow> items) of
                     None \<Rightarrow> Inr (result None None None None)
                   | Some podMetric \<Rightarrow>
                       (let metricContainers = (case pm_containers podMetric of None \<Rightarrow> [] | Some cs \<Rightarrow> cs);
                            totalCpuUsage = foldl (\<lambda>total container.
                                (case usage_cpu container of
                                   None \<Rightarrow> total
                                 | Some cpu \<Rightarrow> if cpu = [] then total else js_add total (parseMetricCPU rt cpu)))
                              (Fin 0) metricContainers;
                            totalMemUsage = foldl (\<lambda>total container.
                                (case usage_memory container of
                                   None \<Rightarrow> total
                                 | Some mem \<Rightarrow> if mem = [] then total else js_add total (parseMetricMemory rt mem)))
                              (Fin 0) metricContainers;
                            currentCpu = totalCpuUsage;
                            currentMem = totalMemUsage;
                            cpuUsagePercent =
                              (if js_gt totalCpuLimit (Fin 0)
                               then Some (js_mul (js_div currentCpu totalCpuLimit) (Fin 100)) else None);
                            memUsagePercent =
                              (if js_gt totalMemLimit (Fin 0)
                               then Some (js_mul (js_div currentMem totalMemLimit) (Fin 100)) else None)
                        in Inr (result (Some currentCpu) (Some currentMem) cpuUsagePercent memUsagePercent)))))"

subsection \<open>Health score and summary\<close>

text \<open>The loop over the issues, with the running score as accumulator.\<close>

fun healthScoreLoop :: "int \<Rightarrow> DiagnosticIssue list \<Rightarrow> int" where
  "healthScoreLoop score [] = score"
| "healthScoreLoop score (issue # rest) =
     healthScoreLoop
       (if severity issue = Critical then score - 30
        else if severity issue = High then score - 20
        else if severity issue = Medium then score - 10
        else if severity issue = Low then score - 5
        else score) rest"

definition calculateHealthScore :: "Pod \<Rightarrow> DiagnosticIssue list \<Rightarrow> int" where
  "calculateHealthScore pod issues =
     (let score = 100;
          phase = status_phase pod;
          score = (if phase = Some ''Failed'' then score - 100
                   else if phase = Some ''Pending'' then score - 30
                   else if phase = Some ''Unknown'' then score - 50
                   else score);
          score = healthScoreLoop score issues
      in max 0 (min 100 score))"

definition generatePodSummary :: "Pod \<Rightarrow> DiagnosticIssue list \<Rightarrow> int \<Rightarrow> string" where
  "generatePodSummary pod issues healthScore =
     (let phase = orElse (status_phase pod) ''Unknown'';
          containerCount = (case spec_containers pod of None \<Rightarrow> 0 | Some cs \<Rightarrow> length cs);
          readyContainers = (case status_containerStatuses pod of
                               None \<Rightarrow> 0
                             | Some cs \<Rightarrow> length (filter (\<lambda>c. v1_ready c = Some True) cs));
          critical = length (filter (\<lambda>i. severity i = Critical) issues);
          high = length (filter (\<lambda>i. severity i = High) issues)
      in ''Pod '' @ dq @ tmpl (meta_name pod) @ dq @ '' is currently in '' @ phase @ '' state.'' @ nl
         @ ''Containers: '' @ showNat readyContainers @ ''/'' @ showNat containerCount @ '' ready'' @ nl
         @ ''Health: '' @ showInt healthScore @ ''/100'' @ nl @ nl
         @ (if length issues = 0 then [CHR 0xE2, CHR 0x9C, CHR 0x85] @ '' No issues found!''
            else [CHR 0xE2, CHR 0x9A, CHR 0xA0] @ [CHR 0xEF, CHR 0xB8, CHR 0x8F] @ '' '' @ showNat (length issues) @ '' issue(s) detected.'' @ nl
                 @ (if critical > 0 then ''  - Critical: '' @ showNat critical @ nl else [])
                 @ (if high > 0 then ''  - High: '' @ showNat high @ nl else [])))"

subsection \<open>diagnosePod\<close>

definition podRetryOptions :: RetryOptions where
  "podRetryOptions = \<lparr>maxAttempts = Some 3, initialDelay = Some 500, maxDelay = None,
     backoffMultiplier = None, shouldRetry = None\<rparr>"

definition eventsRetryOptions :: RetryOptions where
  "eventsRetryOptions = \<lparr>maxAttempts = Some 2, initialDelay = Some 500, maxDelay = None,
     backoffMultiplier = None, shouldRetry = None\<rparr>"

text \<open>
  The two fetches of \<open>Promise.all\<close>, each with its own \<open>catch\<close>: the pod fetch
  rethrows with the pod name, the event fetch turns a thrown error into
  \<open>{ items: [] }\<close>. Either handler reads \<open>error.message\<close> and so throws itself on
  \<open>undefined\<close>. Whatever is thrown inside the outer \<open>try\<close> is rethrown by the outer
  \<open>catch\<close> under the prefix \<open>Pod diagnosis failed:\<close>.
\<close>

definition diagnosePod ::
  "js_runtime \<Rightarrow> CoreV1Api \<Rightarrow> string \<Rightarrow> string \<Rightarrow> MetricsApi option \<Rightarrow> js_error + PodDiagnostics" where
  "diagnosePod rt coreApi namespace podName metricsApi =
     (let fatal = (\<lambda>error. Inl (newError (''Pod diagnosis failed: '' @ err_message error)));
          podFetch =
            (case fst (withRetry (readNamespacedPod coreApi podName namespace) podRetryOptions) of
               Returned pod \<Rightarrow> Inr pod
             | Threw None \<Rightarrow> Inl (undefinedProperty ''message'')
             | Threw (Some error) \<Rightarrow>
                 Inl (newError (''Cannot read pod '' @ podName @ '': '' @ err_message error)));
          eventsFetch =
            (case fst (withRetry (listNamespacedEvent coreApi namespace (''involvedObject.name='' @ podName))
                         eventsRetryOptions) of
               Returned items \<Rightarrow> Inr items
             | Threw None \<Rightarrow> Inl (undefinedProperty ''message'')
             | Threw (Some error) \<Rightarrow> Inr [])
      in case podFetch of
           Inl error \<Rightarrow> fatal error
         | Inr pod \<Rightarrow>
             (case eventsFetch of
                Inl error \<Rightarrow> fatal error
              | Inr items \<Rightarrow>
                  (let events = parseEvents rt items;
                       containers = parseContainerStatuses
                          (case status_containerStatuses pod of None \<Rightarrow> [] | Some cs \<Rightarrow> cs);
                       issues = detectContainerIssues rt pod containers events;
                       issues = issues @ detectImagePullIssues rt pod events
                   in case analyzeResourceUsage rt pod namespace podName metricsApi of
                        Inl error \<Rightarrow> fatal error
                      | Inr resources \<Rightarrow>
                          (let issues = issues @ detectResourceIssues rt pod resources;
                               issues = issues @ detectVolumeIssues rt pod events;
                               issues = issues @ detectNetworkIssues rt pod events;
                               healthScore = calculateHealthScore pod issues;
                               summary = generatePodSummary pod issues healthScore
                           in Inr \<lparr>pd_podInfo =
                                      \<lparr>pi_name = orElse (meta_name pod) podName,
                                       pi_namespace = orElse (meta_namespace pod) namespace,
                                       pi_phase = orElse (status_phase pod) ''Unknown'',
                                       pi_startTime = status_startTime pod,
                                       pi_nodeName = spec_nodeName pod,
                                       pi_hostIP = status_hostIP pod,
                                       pi_podIP = status_podIP pod\<rparr>,
                                    pd_containers = containers,
                                    pd_issues = issues,
                                    pd_resources = resources,
                                    pd_events = events,
                                    pd_summary = summary,
                                    pd_healthScore = healthScore\<rparr>))))"

subsection \<open>diagnoseCrashLoop\<close>

text \<open>The exit code of the last terminated state, mapped to a root cause and a solution.\<close>

definition crashLoopCause :: "string \<Rightarrow> string \<Rightarrow> string \<Rightarrow> int \<Rightarrow> string \<times> string" where
  "crashLoopCause namespace podName containerName' exitCode =
     (if exitCode = 0 then
        (''Container exited normally but keeps restarting due to restart policy'',
         ''Change spec.restartPolicy to '' @ dq @ ''Never'' @ dq @ '' or '' @ dq @ ''OnFailure'' @ dq @ nl @ ''```yaml'' @ nl @ ''spec:'' @ nl @ ''  restartPolicy: OnFailure'' @ nl @ ''```'')
      else if exitCode = 1 then
        (''Application error caused termination'',
         ''Check logs to fix application errors'' @ nl @ ''```bash'' @ nl @ ''kubectl logs '' @ podName @ '' -n '' @ namespace
           @ '' -c '' @ containerName' @ '' --previous'' @ nl @ ''```'')
      else if exitCode = 137 then
        (''OOM (Out Of Memory) - Container was killed due to insufficient memory'',
         ''Increase memory limit or optimize application memory usage'' @ nl @ ''```yaml'' @ nl @ ''resources:'' @ nl @ ''  limits:'' @ nl @ ''    memory: '' @ dq @ ''512Mi'' @ dq @ ''  # Set higher than current'' @ nl @ ''```'')
      else if exitCode = 143 then
        (''Terminated by SIGTERM - Received normal termination signal'',
         ''Graceful shutdown may not be properly implemented. Try increasing terminationGracePeriodSeconds'')
      else if exitCode = 126 then
        (''Permission denied - Executable file lacks execute permission'',
         ''Grant execute permission with chmod +x in Dockerfile'')
      else if exitCode = 127 then
        (''Command not found - CMD/ENTRYPOINT command does not exist'',
         ''Verify CMD/ENTRYPOINT path in Dockerfile'')
      else
        (''Unknown error (exit code '' @ showInt exitCode @ '')'',
         ''Check logs to identify detailed cause''))"

text \<open>The test of the loop over the log lines.\<close>

definition isRelevantLog :: "string \<Rightarrow> bool" where
  "isRelevantLog line =
     (js_includes (toLowerCase line) ''error'' \<or>
      js_includes (toLowerCase line) ''exception'' \<or>
      js_includes (toLowerCase line) ''fatal'' \<or>
      js_includes (toLowerCase line) ''panic'')"

text \<open>The test \<open>containerName && status.name !== containerName\<close> that skips a round.\<close>

definition skipsContainer :: "string option \<Rightarrow> V1ContainerStatus \<Rightarrow> bool" where
  "skipsContainer containerName status =
     (case containerName of None \<Rightarrow> False | Some c \<Rightarrow> c \<noteq> [] \<and> v1_name status \<noteq> c)"

text \<open>The test \<open>restartCount > 3 || status.state?.waiting?.reason === 'CrashLoopBackOff'\<close>.\<close>

definition detectsCrashLoop :: "V1ContainerStatus \<Rightarrow> bool" where
  "detectsCrashLoop status =
     ((case v1_restartCount status of None \<Rightarrow> 0 | Some n \<Rightarrow> n) > 3 \<or>
      (case v1_state status of
         None \<Rightarrow> False
       | Some st \<Rightarrow> (case waiting st of None \<Rightarrow> False | Some w \<Rightarrow> w_reason w = Some ''CrashLoopBackOff'')))"

definition logRetryOptions :: RetryOptions where
  "logRetryOptions = \<lparr>maxAttempts = Some 2, initialDelay = None, maxDelay = None,
     backoffMultiplier = None, shouldRetry = None\<rparr>"

text \<open>The message of a crash-loop issue: the container's name in double quotes and its restart count.\<close>

definition restartMessage :: "V1ContainerStatus \<Rightarrow> string" where
  "restartMessage status =
     ''Container '' @ dq @ v1_name status @ dq @ '' has restarted ''
       @ showNat (case v1_restartCount status of None \<Rightarrow> 0 | Some n \<Rightarrow> n) @ '' times''"

definition crashLoopIssue ::
  "js_runtime \<Rightarrow> string \<Rightarrow> string \<Rightarrow> V1ContainerStatus \<Rightarrow> string \<Rightarrow> string \<Rightarrow> string list option
     \<Rightarrow> DiagnosticIssue" where
  "crashLoopIssue rt namespace podName status rootCause' solution' logs =
     \<lparr>issue_type = ''CrashLoopBackOff'',
      severity = Critical,
      message = restartMessage status,
      rootCause = rootCause',
      solution = solution',
      resource = Some \<lparr>kind = ''Pod'', res_name = Some podName, res_namespace = Some namespace\<rparr>,
      relevantLogs = logs,
      relatedEvents = None,
      timestamp = now rt\<rparr>"

text \<open>
  The fetch of the previous run's log, under retry: how it settled, and \<open>logData\<close>,
  which collects what every invocation of the log call wrote to the stream.
\<close>

definition fetchPreviousLogs ::
  "LogApi \<Rightarrow> string \<Rightarrow> string \<Rightarrow> V1ContainerStatus \<Rightarrow> unit outcome \<times> string" where
  "fetchPreviousLogs logApi namespace podName status =
     (let logCall = logApi namespace podName (v1_name status) \<lparr>previous = Some True, tailLines = Some 50\<rparr>;
          (fetched, trace) = withRetry (\<lambda>k. snd (logCall k)) logRetryOptions;
          logData = concat (map (\<lambda>k. fst (logCall k)) [1 ..< Suc (invocations trace)])
      in (fetched, logData))"

text \<open>
  One round of the loop over the container statuses: the issues it pushes, or the error
  it throws. The inner \<open>catch\<close> reads \<open>logError.message\<close> before it pushes, and so
  throws itself on \<open>undefined\<close>.
\<close>

definition crashLoopRound ::
  "js_runtime \<Rightarrow> LogApi \<Rightarrow> string \<Rightarrow> string \<Rightarrow> string option \<Rightarrow> V1ContainerStatus
     \<Rightarrow> js_error + DiagnosticIssue list" where
  "crashLoopRound rt logApi namespace podName containerName status =
     (if skipsContainer containerName status then Inr []
      else if detectsCrashLoop status then
        (let lastTerminated = (case v1_lastState status of None \<Rightarrow> None | Some st \<Rightarrow> terminated st);
             (rootCause', solution') =
               (case lastTerminated of
                  None \<Rightarrow> (''unknown'', [])
                | Some t \<Rightarrow> crashLoopCause namespace podName (v1_name status) (t_exitCode t))
         in case fetchPreviousLogs logApi namespace podName status of
              (Returned u, logData) \<Rightarrow>
                Inr [crashLoopIssue rt namespace podName status rootCause' solution'
                       (Some (take 10 (map js_trim (filter isRelevantLog (js_split_nl logData)))))]
            | (Threw None, logData) \<Rightarrow> Inl (undefinedProperty ''message'')
            | (Threw (Some logError), logData) \<Rightarrow>
                Inr [crashLoopIssue rt namespace podName status rootCause' solution' None])
      else Inr [])"

fun crashLoopRounds ::
  "js_runtime \<Rightarrow> LogApi \<Rightarrow> string \<Rightarrow> string \<Rightarrow> string option \<Rightarrow> V1ContainerStatus list
     \<Rightarrow> js_error + DiagnosticIssue list" where
  "crashLoopRounds rt logApi namespace podName containerName [] = Inr []"
| "crashLoopRounds rt logApi namespace podName containerName (status # rest) =
     (case crashLoopRound rt logApi namespace podName containerName status of
        Inl error \<Rightarrow> Inl error
      | Inr pushed \<Rightarrow>
          (case crashLoopRounds rt logApi namespace podName containerName rest of
             Inl error \<Rightarrow> Inl error
           | Inr later \<Rightarrow> Inr (pushed @ later)))"

definition diagnoseCrashLoop ::
  "js_runtime \<Rightarrow> CoreV1Api \<Rightarrow> LogApi \<Rightarrow> string \<Rightarrow> string \<Rightarrow> string option
     \<Rightarrow> js_error + DiagnosticIssue list" where
  "diagnoseCrashLoop rt coreApi logApi namespace podName containerName =
     (let failed = (\<lambda>thrown. case thrown of
                      None \<Rightarrow> Inl (undefinedProperty ''message'')
                    | Some error \<Rightarrow> Inl (newError (''CrashLoop diagnostics failed: '' @ err_message error)))
      in case fst (withRetry (readNamespacedPod coreApi podName namespace) (onlyMaxAttempts 3)) of
           Threw thrown \<Rightarrow> failed thrown
         | Returned pod \<Rightarrow>
             (case crashLoopRounds rt logApi namespace podName containerName
                     (case status_containerStatuses pod of None \<Rightarrow> [] | Some cs \<Rightarrow> cs) of
                Inl error \<Rightarrow> failed (Some error)
              | Inr issues \<Rightarrow> Inr issues))"

section \<open>Log analysis\<close>

subsection \<open>Regular expressions\<close>

text \<open>
  The regular expressions of the source are values of a small syntax: a character
  class, the empty expression, sequence, alternative, and a quantifier \<open>{lo,hi}\<close>
  that is greedy or lazy. \<open>lens f re s\<close> lists, in the order in which a backtracking
  matcher tries them, the lengths of the prefixes of \<open>s\<close> that \<open>re\<close> matches; the
  first one is the match. A round of a quantifier that consumes no character is not
  taken (no quantified expression of the source can match the empty string), so the
  fuel \<open>f\<close>, which bounds the rounds, is never exhausted when it starts at the length of
  the string.
\<close>

datatype regex =
    Class "char \<Rightarrow> bool"
  | Empty
  | Cat regex regex
  | Or regex regex
  | Rep bool nat "nat option" regex

fun lens :: "nat \<Rightarrow> regex \<Rightarrow> string \<Rightarrow> nat list" where
  "lens f (Class p) s = (case s of [] \<Rightarrow> [] | c # cs \<Rightarrow> if p c then [1] else [])"
| "lens f Empty s = [0]"
| "lens f (Cat a b) s = concat (map (\<lambda>n. map (\<lambda>m. n + m) (lens f b (drop n s))) (lens f a s))"
| "lens f (Or a b) s = lens f a s @ lens f b s"
| "lens 0 (Rep greedy lo hi a) s = (if lo = 0 then [0] else [])"
| "lens (Suc f) (Rep greedy lo hi a) s =
     (let stop = (if lo = 0 then [0] else []);
          again = (if hi = Some 0 then []
                   else concat (map (\<lambda>n. if n = 0 then []
                                          else map (\<lambda>m. n + m)
                                                 (lens f (Rep greedy (lo - 1) (map_option (\<lambda>h. h - 1) hi) a) (drop n s)))
                                  (lens (Suc f) a s)))
      in if greedy then again @ stop else stop @ again)"

text \<open>The match of \<open>re\<close> that starts at the first character of \<open>s\<close>, as its length.\<close>

definition matchAt :: "regex \<Rightarrow> string \<Rightarrow> nat option" where
  "matchAt re s = (case lens (length s) re s of [] \<Rightarrow> None | n # ns \<Rightarrow> Some n)"

text \<open>\<open>re.test(s)\<close> for an expression without the \<open>g\<close> flag: a match at some position.\<close>

fun regexTest :: "regex \<Rightarrow> string \<Rightarrow> bool" where
  "regexTest re [] = (case matchAt re [] of None \<Rightarrow> False | Some n \<Rightarrow> True)"
| "regexTest re (c # cs) = (case matchAt re (c # cs) of None \<Rightarrow> regexTest re cs | Some n \<Rightarrow> True)"

text \<open>\<open>s.match(re)\<close> for an expression without the \<open>g\<close> flag: the text of the leftmost match.\<close>

fun regexMatch :: "regex \<Rightarrow> string \<Rightarrow> string option" where
  "regexMatch re [] = (case matchAt re [] of None \<Rightarrow> None | Some n \<Rightarrow> Some [])"
| "regexMatch re (c # cs) =
     (case matchAt re (c # cs) of None \<Rightarrow> regexMatch re cs | Some n \<Rightarrow> Some (take n (c # cs)))"

text \<open>
  \<open>s.replace(re, rep)\<close> for an expression with the \<open>g\<close> flag and a replacement without
  \<open>$\<close>: every match, found from left to right, is replaced; the search goes on after
  the match, and one character further after an empty match.
\<close>

function replaceAll :: "regex \<Rightarrow> string \<Rightarrow> string \<Rightarrow> string" where
  "replaceAll re rep [] = (case matchAt re [] of None \<Rightarrow> [] | Some n \<Rightarrow> rep)"
| "replaceAll re rep (c # cs) =
     (case matchAt re (c # cs) of
        None \<Rightarrow> c # replaceAll re rep cs
      | Some n \<Rightarrow> if n = 0 then rep @ c # replaceAll re rep cs
                  else rep @ replaceAll re rep (drop n (c # cs)))"
  by pat_completeness auto
termination
  by (relation "measure (\<lambda>(re, rep, s). length s)") auto

text \<open>Building blocks: \<open>\d\<close>, \<open>.\<close>, one character, a literal, and their case-insensitive forms.
  Without the \<open>u\<close> flag, \<open>i\<close> makes a letter of the expression match its two ASCII forms only.\<close>

definition digit :: regex where
  "digit = Class isDigit"

text \<open>
  \<open>.\<close> takes one character that is no line terminator: not a line feed, not a carriage
  return, not U+2028 and not U+2029, whose bytes are \<open>E2 80 A8\<close> and \<open>E2 80 A9\<close>. So
  a byte \<open>E2\<close> is taken only with the bytes after it that tell the character from these
  two.
\<close>

definition dot :: regex where
  "dot = Or (Class (\<lambda>c. c \<noteq> CHR 0x0A \<and> c \<noteq> CHR 0x0D \<and> c \<noteq> CHR 0xE2))
           (Or (Cat (Class (\<lambda>c. c = CHR 0xE2)) (Class (\<lambda>c. c \<noteq> CHR 0x80)))
               (Cat (Class (\<lambda>c. c = CHR 0xE2))
                  (Cat (Class (\<lambda>c. c = CHR 0x80)) (Class (\<lambda>c. c \<noteq> CHR 0xA8 \<and> c \<noteq> CHR 0xA9)))))"

definition chr :: "char \<Rightarrow> regex" where
  "chr x = Class (\<lambda>c. c = x)"

definition chr_i :: "char \<Rightarrow> regex" where
  "chr_i x = Class (\<lambda>c. lowerChar c = lowerChar x)"

definition cats :: "regex list \<Rightarrow> regex" where
  "cats rs = foldr Cat rs Empty"

definition ors :: "regex list \<Rightarrow> regex" where
  "ors rs = foldr Or (butlast rs) (last rs)"

definition lit_i :: "string \<Rightarrow> regex" where
  "lit_i s = cats (map chr_i s)"

text \<open>\<open>\d{n}\<close>, \<open>\d{lo,hi}\<close>, \<open>\d+\<close>, \<open>.*\<close>, \<open>.*?\<close> and \<open>r?\<close>.\<close>

definition digits :: "nat \<Rightarrow> regex" where
  "digits n = Rep True n (Some n) digit"

definition digitsBetween :: "nat \<Rightarrow> nat \<Rightarrow> regex" where
  "digitsBetween lo hi = Rep True lo (Some hi) digit"

definition digitsPlus :: regex where
  "digitsPlus = Rep True 1 None digit"

definition dotStar :: regex where
  "dotStar = Rep True 0 None dot"

definition dotStarLazy :: regex where
  "dotStarLazy = Rep False 0 None dot"

definition optional :: "regex \<Rightarrow> regex" where
  "optional r = Rep True 0 (Some 1) r"

subsection \<open>normalizeErrorMessage\<close>

text \<open>\<open>/\d{4}-\d{2}-\d{2}[T ]\d{2}:\d{2}:\d{2}.*?Z/g\<close>\<close>

definition re_isoTimestamp :: regex where
  "re_isoTimestamp =
     cats [digits 4, chr CHR ''-'', digits 2, chr CHR ''-'', digits 2,
           Class (\<lambda>c. c = CHR ''T'' \<or> c = CHR '' ''),
           digits 2, chr CHR '':'', digits 2, chr CHR '':'', digits 2, dotStarLazy, chr CHR ''Z'']"

text \<open>\<open>/\d{1,3}\.\d{1,3}\.\d{1,3}\.\d{1,3}/g\<close>\<close>

definition re_ipAddress :: regex where
  "re_ipAddress =
     cats [digitsBetween 1 3, chr CHR ''.'', digitsBetween 1 3, chr CHR ''.'',
           digitsBetween 1 3, chr CHR ''.'', digitsBetween 1 3]"

text \<open>\<open>/:\d{2,5}/g\<close>\<close>

definition re_port :: regex where
  "re_port = cats [chr CHR '':'', digitsBetween 2 5]"

text \<open>\<open>/\d+/g\<close>\<close>

definition re_number :: regex where
  "re_number = cats [digitsPlus]"

text \<open>\<open>/0x[0-9a-f]+/gi\<close>\<close>

definition re_hex :: regex where
  "re_hex =
     cats [chr_i CHR ''0'', chr_i CHR ''x'',
           Rep True 1 None (Class (\<lambda>c. isDigit c \<or> (97 \<le> (of_char (lowerChar c) :: nat) \<and> (of_char (lowerChar c) :: nat) \<le> 102)))]"

definition normalizeErrorMessage :: "string \<Rightarrow> string" where
  "normalizeErrorMessage msg =
     js_trim (toLowerCase
       (replaceAll re_hex ''<hex>''
         (replaceAll re_number ''<num>''
           (replaceAll re_port '':<port>''
             (replaceAll re_ipAddress ''<ip>''
               (replaceAll re_isoTimestamp ''<timestamp>'' msg))))))"

subsection \<open>extractTimestamp\<close>

text \<open>\<open>/\d{4}-\d{2}-\d{2}[T ]\d{2}:\d{2}:\d{2}(?:\.\d+)?Z?/\<close>\<close>

definition re_iso8601 :: regex where
  "re_iso8601 =
     cats [digits 4, chr CHR ''-'', digits 2, chr CHR ''-'', digits 2,
           Class (\<lambda>c. c = CHR ''T'' \<or> c = CHR '' ''),
           digits 2, chr CHR '':'', digits 2, chr CHR '':'', digits 2,
           optional (cats [chr CHR ''.'', digitsPlus]), optional (chr CHR ''Z'')]"

text \<open>\<open>/\d{4}-\d{2}-\d{2}T\d{2}:\d{2}:\d{2}[+-]\d{2}:\d{2}/\<close>\<close>

definition re_rfc3339 :: regex where
  "re_rfc3339 =
     cats [digits 4, chr CHR ''-'', digits 2, chr CHR ''-'', digits 2, chr CHR ''T'',
           digits 2, chr CHR '':'', digits 2, chr CHR '':'', digits 2,
           Class (\<lambda>c. c = CHR ''+'' \<or> c = CHR ''-''), digits 2, chr CHR '':'', digits 2]"

definition extractTimestamp :: "string \<Rightarrow> string option" where
  "extractTimestamp line =
     (case regexMatch re_iso8601 line of
        Some isoMatch \<Rightarrow> Some isoMatch
      | None \<Rightarrow>
          (case regexMatch re_rfc3339 line of
             Some rfcMatch \<Rightarrow> Some rfcMatch
           | None \<Rightarrow> None))"

subsection \<open>Results of a log analysis\<close>

datatype LogLevel = ERROR | WARN | INFO | DEBUG

record LogEntry =
  lineNumber :: nat
  content :: string
  le_timestamp :: "string option"
  level :: "LogLevel option"

record ErrorPattern =
  ep_name :: string
  matchedLines :: "nat list"
  ep_description :: string
  possibleCauses :: "string list"
  ep_solutions :: "string list"
  ep_severity :: Severity

record RepeatedError =
  re_message :: string
  re_count :: nat
  firstLine :: nat
  lastLine :: nat
  isPattern :: bool

record LogAnalysis =
  totalLines :: nat
  errorLines :: "LogEntry list"
  warningLines :: "LogEntry list"
  patterns :: "ErrorPattern list"
  repeatedErrors :: "RepeatedError list"
  la_summary :: string
  recommendations :: "string list"

record KnownPattern =
  kp_name :: string
  kp_regex :: regex
  kp_description :: string
  kp_causes :: "string list"
  kp_solutions :: "string list"
  kp_severity :: Severity

subsection \<open>Error and warning lines\<close>

definition errorKeywords :: "string list" where
  "errorKeywords = [''error'', ''exception'', ''fatal'', ''panic'', ''failed'', ''failure'',
                    ''err:'', ''traceback'', ''stacktrace'']"

definition warnKeywords :: "string list" where
  "warnKeywords = [''warn'', ''warning'', ''deprecated'']"

text \<open>
  The loops over \<open>i = 0 .. lines.length - 1\<close>, as recursions on the lines that are
  left, with \<open>i\<close> as a parameter. The inner loop over the keywords, left by \<open>break\<close>
  at the first keyword found, is the test that some keyword occurs.
\<close>

fun extractErrorLinesFrom :: "nat \<Rightarrow> string list \<Rightarrow> LogEntry list" where
  "extractErrorLinesFrom i [] = []"
| "extractErrorLinesFrom i (line # rest) =
     (if list_ex (\<lambda>keyword. js_includes (toLowerCase line) keyword) errorKeywords
      then \<lparr>lineNumber = i + 1, content = line, le_timestamp = extractTimestamp line, level = Some ERROR\<rparr>
             # extractErrorLinesFrom (i + 1) rest
      else extractErrorLinesFrom (i + 1) rest)"

definition extractErrorLines :: "string list \<Rightarrow> LogEntry list" where
  "extractErrorLines lines = extractErrorLinesFrom 0 lines"

fun extractWarningLinesFrom :: "nat \<Rightarrow> string list \<Rightarrow> LogEntry list" where
  "extractWarningLinesFrom i [] = []"
| "extractWarningLinesFrom i (line # rest) =
     (if list_ex (\<lambda>keyword. js_includes (toLowerCase line) keyword) warnKeywords
      then \<lparr>lineNumber = i + 1, content = line, le_timestamp = extractTimestamp line, level = Some WARN\<rparr>
             # extractWarningLinesFrom (i + 1) rest
      else extractWarningLinesFrom (i + 1) rest)"

definition extractWarningLines :: "string list \<Rightarrow> LogEntry list" where
  "extractWarningLines lines = extractWarningLinesFrom 0 lines"

subsection \<open>Known error patterns\<close>

definition knownPatterns :: "KnownPattern list" where
  "knownPatterns =
     [\<lparr>kp_name = ''Connection Refused'',
        kp_regex = ors [cats [lit_i ''connection refused''],
               cats [lit_i ''ECONNREFUSED'']],
        kp_description = ''Cannot connect to target service'',
        kp_causes = [''Target service not started yet'',
         ''Wrong service port'',
         ''Blocked by network policy''],
        kp_solutions = [''Check if service is running: kubectl get pods'',
         ''Verify service port: kubectl get svc'',
         ''Check network policy: kubectl get networkpolicy''],
        kp_severity = High\<rparr>,
      \<lparr>kp_name = ''Database Connection Error'',
        kp_regex = ors [cats [lit_i ''could not connect to'', dotStar, lit_i ''database''],
               cats [lit_i ''ETIMEDOUT'', dotStar, lit_i '':5432''],
               cats [lit_i '':3306''],
               cats [lit_i '':27017'']],
        kp_description = ''Database connection failed'',
        kp_causes = [''DB service not ready'',
         ''Invalid connection string'',
         ''DB authentication failed''],
        kp_solutions = [''Check DB Pod status'',
         ''Verify environment variables (ConfigMap/Secret)'',
         ''Check DB service endpoints: kubectl get endpoints''],
        kp_severity = Critical\<rparr>,
      \<lparr>kp_name = ''Out of Memory'',
        kp_regex = ors [cats [lit_i ''out of memory''],
               cats [lit_i ''OOMKilled''],
               cats [lit_i ''cannot allocate memory'']],
        kp_description = ''Insufficient memory'',
        kp_causes = [''Memory limit set too low'',
         ''Memory leak'',
         ''Higher memory usage than expected''],
        kp_solutions = [''Increase memory limit: resources.limits.memory'',
         ''Profile application memory usage'',
         ''Increase pod count with HPA''],
        kp_severity = Critical\<rparr>,
      \<lparr>kp_name = ''File Not Found'',
        kp_regex = ors [cats [lit_i ''no such file''],
               cats [lit_i ''ENOENT''],
               cats [lit_i ''FileNotFoundError'']],
        kp_description = ''File or directory not found'',
        kp_causes = [''ConfigMap/Secret not mounted'',
         ''Invalid file path'',
         ''Volume mount failed''],
        kp_solutions = [''Check volumeMounts configuration'',
         ''Verify ConfigMap/Secret exists'',
         ''Verify file path is correct''],
        kp_severity = High\<rparr>,
      \<lparr>kp_name = ''Permission Denied'',
        kp_regex = ors [cats [lit_i ''permission denied''],
               cats [lit_i ''EACCES''],
               cats [lit_i ''access denied'']],
        kp_description = ''Permission denied'',
        kp_causes = [''SecurityContext runAsUser setting'',
         ''Volume fsGroup not set'',
         ''File permission issues''],
        kp_solutions = [''Configure securityContext:'' @ nl @ ''fsGroup: 1000'' @ nl @ ''runAsUser: 1000'',
         ''Check volume permissions'',
         ''Set permissions in Dockerfile''],
        kp_severity = High\<rparr>,
      \<lparr>kp_name = ''DNS Resolution Failed'',
        kp_regex = ors [cats [lit_i ''dns'', dotStar, lit_i ''failed''],
               cats [lit_i ''getaddrinfo'', dotStar, lit_i ''ENOTFOUND''],
               cats [lit_i ''name'', dotStar, lit_i ''not known'']],
        kp_description = ''DNS lookup failed'',
        kp_causes = [''CoreDNS issues'',
         ''Invalid service name'',
         ''ndots configuration problem''],
        kp_solutions = [''Check CoreDNS Pod: kubectl get pods -n kube-system'',
         ''Service name format: <service>.<namespace>.svc.cluster.local'',
         ''Verify dnsPolicy setting''],
        kp_severity = High\<rparr>,
      \<lparr>kp_name = ''Port Already in Use'',
        kp_regex = ors [cats [lit_i ''address already in use''],
               cats [lit_i ''EADDRINUSE'']],
        kp_description = ''Port already in use'',
        kp_causes = [''Multiple processes using same port'',
         ''Previous process not terminated properly''],
        kp_solutions = [''Change port number'',
         ''Implement graceful shutdown'',
         ''Configure preStop hook''],
        kp_severity = Medium\<rparr>,
      \<lparr>kp_name = ''Timeout'',
        kp_regex = ors [cats [lit_i ''timeout''],
               cats [lit_i ''timed out''],
               cats [lit_i ''ETIMEDOUT'']],
        kp_description = ''Timeout occurred'',
        kp_causes = [''Response time too long'',
         ''Network latency'',
         ''Target service overloaded''],
        kp_solutions = [''Increase timeout value'',
         ''Optimize service performance'',
         ''Adjust readinessProbe timeout''],
        kp_severity = Medium\<rparr>,
      \<lparr>kp_name = ''Null Pointer / Undefined'',
        kp_regex = ors [cats [lit_i ''null pointer''],
               cats [lit_i ''undefined is not''],
               cats [lit_i ''cannot read property'', dotStar, lit_i ''undefined''],
               cats [lit_i ''NullPointerException'']],
        kp_description = ''Null/Undefined reference'',
        kp_causes = [''Environment variable not set'',
         ''Using uninitialized variable''],
        kp_solutions = [''Verify ConfigMap/Secret'',
         ''Set default value for environment variables'',
         ''Fix code''],
        kp_severity = Medium\<rparr>,
      \<lparr>kp_name = ''SSL/TLS Error'',
        kp_regex = ors [cats [lit_i ''ssl'', dotStar, lit_i ''error''],
               cats [lit_i ''certificate'', dotStar, lit_i ''invalid''],
               cats [lit_i ''CERT_'']],
        kp_description = ''SSL/TLS certificate error'',
        kp_causes = [''Expired certificate'',
         ''Self-signed certificate'',
         ''CA bundle missing''],
        kp_solutions = [''Renew certificate'',
         ''Verify tls.crt, tls.key Secret'',
         ''NODE_TLS_REJECT_UNAUTHORIZED=0 (development only)''],
        kp_severity = High\<rparr>]"

fun matchedLinesFrom :: "regex \<Rightarrow> nat \<Rightarrow> string list \<Rightarrow> nat list" where
  "matchedLinesFrom re i [] = []"
| "matchedLinesFrom re i (line # rest) =
     (if regexTest re line then (i + 1) # matchedLinesFrom re (i + 1) rest
      else matchedLinesFrom re (i + 1) rest)"

definition matchPattern :: "string list \<Rightarrow> KnownPattern \<Rightarrow> ErrorPattern list" where
  "matchPattern lines pattern =
     (let matched = matchedLinesFrom (kp_regex pattern) 0 lines
      in if length matched > 0
         then [\<lparr>ep_name = kp_name pattern,
                 matchedLines = matched,
                 ep_description = kp_description pattern,
                 possibleCauses = kp_causes pattern,
                 ep_solutions = kp_solutions pattern,
                 ep_severity = kp_severity pattern\<rparr>]
         else [])"

definition detectErrorPatterns :: "string list \<Rightarrow> ErrorPattern list" where
  "detectErrorPatterns lines = concat (map (matchPattern lines) knownPatterns)"

subsection \<open>Repeated errors\<close>

text \<open>
  The \<open>Map\<close> from normalized message to line numbers is an association list in
  insertion order; \<open>mapPush\<close> is the \<open>has\<close>/\<open>set\<close>/\<open>get(...).push\<close> of one round.
\<close>

fun mapPush :: "(string \<times> nat list) list \<Rightarrow> string \<Rightarrow> nat \<Rightarrow> (string \<times> nat list) list" where
  "mapPush [] k v = [(k, [v])]"
| "mapPush ((k', vs) # m) k v = (if k' = k then (k', vs @ [v]) # m else (k', vs) # mapPush m k v)"

definition findRepeatedErrors :: "LogEntry list \<Rightarrow> RepeatedError list" where
  "findRepeatedErrors entries =
     (let errorMap = foldl (\<lambda>m entry. mapPush m (normalizeErrorMessage (content entry)) (lineNumber entry)) [] entries;
          repeated = concat (map (\<lambda>(msg, lineNumbers).
                        if length lineNumbers \<ge> 3
                        then [\<lparr>re_message = msg,
                                re_count = length lineNumbers,
                                firstLine = hd lineNumbers,
                                lastLine = last lineNumbers,
                                isPattern = True\<rparr>]
                        else []) errorMap)
      in js_sort (\<lambda>a b. js_sub (Fin (real (re_count b))) (Fin (real (re_count a)))) repeated)"

subsection \<open>Summary and recommendations\<close>

definition generateLogSummary :: "nat \<Rightarrow> LogEntry list \<Rightarrow> ErrorPattern list \<Rightarrow> string" where
  "generateLogSummary totalLines' errs pats =
     ''Analyzed '' @ showNat totalLines' @ '' lines of logs.'' @ nl
     @ ''Errors: '' @ showNat (length errs) @ nl
     @ (if length pats > 0
        then nl @ ''Detected '' @ showNat (length pats) @ '' error patterns:'' @ nl
             @ concat (map (\<lambda>pattern. ''  - '' @ ep_name pattern @ '' (''
                                          @ showNat (length (matchedLines pattern)) @ '' occurrences)'' @ nl) pats)
        else nl @ [CHR 0xE2, CHR 0x9C, CHR 0x85] @ '' No known error patterns detected.'')"

definition generateRecommendations :: "ErrorPattern list \<Rightarrow> RepeatedError list \<Rightarrow> string list" where
  "generateRecommendations pats repeated =
     (let criticalPatterns = filter (\<lambda>p. ep_severity p = Critical) pats;
          found =
            (if length criticalPatterns > 0
             then [[CHR 0xF0, CHR 0x9F, CHR 0x94, CHR 0xB4] @ '' Resolve '' @ showNat (length criticalPatterns) @ '' Critical issue(s) as top priority'']
             else [])
            @ (case repeated of
                 [] \<Rightarrow> []
               | topError # others \<Rightarrow>
                   [[CHR 0xE2, CHR 0x9A, CHR 0xA0] @ [CHR 0xEF, CHR 0xB8, CHR 0x8F] @ '' '' @ dq @ re_message topError @ dq @ '' error is repeating '' @ showNat (re_count topError)
                      @ '' times. Find the root cause.''])
            @ map (\<lambda>pattern. [CHR 0xF0, CHR 0x9F, CHR 0x92, CHR 0xA1] @ '' '' @ ep_name pattern @ '': ''
                      @ (case ep_solutions pattern of [] \<Rightarrow> ''undefined'' | first # others \<Rightarrow> first))
                (take 3 pats)
      in if length found = 0 then [[CHR 0xE2, CHR 0x9C, CHR 0x85] @ '' No special issues found in current logs.''] else found)"

subsection \<open>analyzeLogs\<close>

text \<open>
  The log call is issued once, without retry; \<open>tailLines\<close> defaults to 500 and an
  absent or empty container name is sent as the empty string. An error it throws is
  rethrown under the prefix \<open>Log analysis failed:\<close>.
\<close>

definition analyzeLogs ::
  "LogApi \<Rightarrow> string \<Rightarrow> string \<Rightarrow> string option \<Rightarrow> nat option \<Rightarrow> js_error + LogAnalysis" where
  "analyzeLogs logApi namespace podName containerName tailLines' =
     (case logApi namespace podName (orElse containerName [])
             \<lparr>previous = None, tailLines = Some (case tailLines' of None \<Rightarrow> 500 | Some n \<Rightarrow> n)\<rparr> 1 of
        (written, Inl error) \<Rightarrow> Inl (newError (''Log analysis failed: '' @ err_message error))
      | (logData, Inr done) \<Rightarrow>
          (let lines = filter (\<lambda>line. js_trim line \<noteq> []) (js_split_nl logData);
               errs = extractErrorLines lines;
               warns = extractWarningLines lines;
               pats = detectErrorPatterns lines;
               repeated = findRepeatedErrors errs
           in Inr \<lparr>totalLines = length lines,
                    errorLines = errs,
                    warningLines = warns,
                    patterns = pats,
                    repeatedErrors = repeated,
                    la_summary = generateLogSummary (length lines) errs pats,
                    recommendations = generateRecommendations pats repeated\<rparr>))"

section \<open>Cluster health score\<close>

text \<open>The counts of \<open>podStats\<close>; each is the length of a filtered array.\<close>

record PodStats =
  ps_total :: nat
  ps_running :: nat
  ps_pending :: nat
  ps_failed :: nat
  ps_crashLooping :: nat

fun overallScoreLoop :: "jsnum \<Rightarrow> DiagnosticIssue list \<Rightarrow> jsnum" where
  "overallScoreLoop score [] = score"
| "overallScoreLoop score (issue # rest) =
     overallScoreLoop
       (if severity issue = Critical then js_sub score (Fin 10)
        else if severity issue = High then js_sub score (Fin 5)
        else if severity issue = Medium then js_sub score (Fin 2)
        else score) rest"

definition calculateOverallScore :: "nat \<Rightarrow> nat \<Rightarrow> PodStats \<Rightarrow> DiagnosticIssue list \<Rightarrow> jsnum" where
  "calculateOverallScore totalNodes readyNodes podStats issues =
     (let score = Fin 100;
          nodeHealthPercent = js_mul (js_div (Fin (real readyNodes)) (Fin (real totalNodes))) (Fin 100);
          score = js_sub score (js_mul (js_sub (Fin 100) nodeHealthPercent) (Fin 0.5));
          healthyPodPercent = js_mul (js_div (Fin (real (ps_running podStats))) (Fin (real (ps_total podStats)))) (Fin 100);
          score = js_sub score (js_mul (js_sub (Fin 100) healthyPodPercent) (Fin 0.3));
          score = js_sub score (js_mul (Fin (real (ps_crashLooping podStats))) (Fin 5));
          score = overallScoreLoop score issues
      in Math_max (Fin 0) (Math_min (Fin 100) score))"

section \<open>Example inputs\<close>

text \<open>
  Concrete inputs for the evaluations below: errors, an operation that fails with the same
  error at every invocation, retry options, a runtime, a pod with two restarting
  containers, and cluster clients.
\<close>

definition alwaysFails :: "js_error \<Rightarrow> nat \<Rightarrow> js_error + 'a" where
  "alwaysFails e k = Inl e"

definition notFound404 :: js_error where
  "notFound404 = \<lparr>err_code = None, err_statusCode = Some 404, err_message = ''Not Found''\<rparr>"

definition refused :: js_error where
  "refused = \<lparr>err_code = Some ''ECONNREFUSED'', err_statusCode = None, err_message = ''connect ECONNREFUSED''\<rparr>"

definition longInitialDelay :: RetryOptions where
  "longInitialDelay = \<lparr>maxAttempts = Some 3, initialDelay = Some 20000, maxDelay = Some 10000,
     backoffMultiplier = None, shouldRetry = None\<rparr>"

definition emptyNamespace :: PodStats where
  "emptyNamespace = \<lparr>ps_total = 0, ps_running = 0, ps_pending = 0, ps_failed = 0, ps_crashLooping = 0\<rparr>"

definition allRunning :: PodStats where
  "allRunning = \<lparr>ps_total = 5, ps_running = 5, ps_pending = 0, ps_failed = 0, ps_crashLooping = 0\<rparr>"

text \<open>
  A runtime for the evaluations: its parsers read an unsigned decimal integer at the
  start of the string, it prints the integer part of a number, and it reads no date.
\<close>

definition parseDecimal :: "string \<Rightarrow> jsnum" where
  "parseDecimal s =
     (let ds = takeWhile isDigit s
      in if ds = [] then NaN else Fin (real (foldl (\<lambda>n c. 10 * n + ((of_char c :: nat) - 48)) 0 ds)))"

definition printNumber :: "jsnum \<Rightarrow> string" where
  "printNumber x = (case x of Fin a \<Rightarrow> showInt \<lfloor>a\<rfloor> | PInf \<Rightarrow> ''Infinity'' | NInf \<Rightarrow> ''-Infinity'' | NaN \<Rightarrow> ''NaN'')"

definition testRuntime :: js_runtime where
  "testRuntime =
     \<lparr>parseInt = parseDecimal,
      parseFloat = parseDecimal,
      numberToString = printNumber,
      toFixed1 = printNumber,
      dateGetTime = (\<lambda>s. NaN),
      now = ''2024-01-15T10:30:45.000Z''\<rparr>"

definition appStatus :: V1ContainerStatus where
  "appStatus =
     \<lparr>v1_name = ''app'',
      v1_ready = Some False,
      v1_restartCount = Some 5,
      v1_state = Some \<lparr>running = None,
                        waiting = Some \<lparr>w_reason = Some ''CrashLoopBackOff'', w_message = None\<rparr>,
                        terminated = None\<rparr>,
      v1_lastState = Some \<lparr>running = None,
                            waiting = None,
                            terminated = Some \<lparr>t_exitCode = 137, t_reason = Some ''OOMKilled''\<rparr>\<rparr>,
      v1_image = ''app:1'',
      v1_imageID = None\<rparr>"

definition sidecarStatus :: V1ContainerStatus where
  "sidecarStatus =
     \<lparr>v1_name = ''sidecar'',
      v1_ready = Some True,
      v1_restartCount = Some 7,
      v1_state = Some \<lparr>running = Some ''2024-01-15T10:00:00Z'', waiting = None, terminated = None\<rparr>,
      v1_lastState = None,
      v1_image = ''sidecar:1'',
      v1_imageID = None\<rparr>"

definition crashingPod :: Pod where
  "crashingPod =
     \<lparr>meta_name = Some ''web'',
      meta_namespace = Some ''default'',
      spec_containers = Some [\<lparr>sc_name = ''app'', requests_cpu = None, requests_memory = None,
                                limits_cpu = None, limits_memory = None\<rparr>],
      spec_nodeName = Some ''node-1'',
      status_phase = Some ''Running'',
      status_startTime = None,
      status_hostIP = None,
      status_podIP = None,
      status_containerStatuses = Some [appStatus, sidecarStatus]\<rparr>"

text \<open>A cluster that serves a pod but no events, and one that refuses every connection.\<close>

definition clusterWithoutEvents :: "Pod \<Rightarrow> CoreV1Api" where
  "clusterWithoutEvents pod =
     \<lparr>readNamespacedPod = (\<lambda>name' ns k. Inr pod),
      listNamespacedEvent = (\<lambda>ns selector k. Inl refused)\<rparr>"

definition unreachableCluster :: CoreV1Api where
  "unreachableCluster =
     \<lparr>readNamespacedPod = (\<lambda>name' ns k. Inl refused),
      listNamespacedEvent = (\<lambda>ns selector k. Inl refused)\<rparr>"

text \<open>A log endpoint that fails at every call, and one that always delivers the same text.\<close>

definition logsUnavailable :: LogApi where
  "logsUnavailable ns pod container' options k = ([], Inl refused)"

definition logsOf :: "string \<Rightarrow> LogApi" where
  "logsOf text' ns pod container' options k = (text', Inr ())"

text \<open>A log endpoint that delivers a text for one container and fails for every other.\<close>

definition logsOnlyFor :: "string \<Rightarrow> string \<Rightarrow> LogApi" where
  "logsOnlyFor name' text' ns pod container' options k =
     (if container' = name' then (text', Inr ()) else ([], Inl refused))"

text \<open>
  Two log texts: one with a line that reports a panic, and one with two messages among
  blank lines, of which the first is empty, the second a no-break space (U+00A0) and
  the fourth three spaces.
\<close>

definition panicLog :: string where
  "panicLog = ''starting'' @ nl @ '' PANIC: out of memory '' @ nl"

definition blankLog :: string where
  "blankLog = nl @ [CHR 0xC2, CHR 0xA0] @ nl @ ''ERROR boom'' @ nl @ ''   '' @ nl @ ''warning: deprecated''"

section \<open>Properties of the resilient call executor\<close>

text \<open>With at least one attempt allowed, what \<open>withRetry\<close> throws is never \<open>undefined\<close>.\<close>

lemma withRetry_loop_throws_error:
  "attempt \<le> opt_maxAttempts opts \<Longrightarrow> fst (withRetry_loop opts fn attempt delay lastError) \<noteq> Threw None"
proof (induction opts fn attempt delay lastError rule: withRetry_loop.induct)
  case (1 opts fn attempt delay lastError)
  show ?case
  proof (cases "fn attempt")
    case (Inr v)
    with "1.prems" show ?thesis by (simp add: withRetry_loop.simps [of opts fn attempt])
  next
    case (Inl error)
    show ?thesis
    proof (cases "attempt = opt_maxAttempts opts \<or> \<not> opt_shouldRetry opts error")
      case True
      with Inl "1.prems" show ?thesis by (auto simp: withRetry_loop.simps [of opts fn attempt])
    next
      case False
      with Inl "1.prems" "1.IH" [of error] show ?thesis
        by (simp add: withRetry_loop.simps [of opts fn attempt])
    qed
  qed
qed

lemma withRetry_throws_error:
  "1 \<le> opt_maxAttempts options \<Longrightarrow> fst (withRetry fn options) \<noteq> Threw None"
  by (simp add: withRetry_def withRetry_loop_throws_error)

text \<open>
  C3: an operation whose first invocation fails with a 4xx-class response is invoked
  exactly once by the executor under the default policy with \<open>maxAttempts = 5\<close>: there
  is no sleep and no second invocation, and the caller receives that error. A 4xx-class
  response is an error with a status code in \<open>400..499\<close>; it carries none of the codes
  \<open>ECONNREFUSED\<close>, \<open>ETIMEDOUT\<close>, \<open>ENOTFOUND\<close>, which mark a connection on which no
  response arrived.
\<close>

theorem withRetry_client_error_once:
  assumes "fn 1 = Inl e"
    and "err_statusCode e = Some s" and "400 \<le> s" and "s < 500"
    and "err_code e \<noteq> Some ''ECONNREFUSED''"
    and "err_code e \<noteq> Some ''ETIMEDOUT''"
    and "err_code e \<noteq> Some ''ENOTFOUND''"
    and "maxAttempts options = Some 5" and "shouldRetry options = None"
  shows "withRetry fn options = (Threw (Some e), [Invoke 1])"
  using assms
  by (simp add: withRetry_def withRetry_loop.simps [of _ _ "Suc 0"] opt_maxAttempts_def
        opt_shouldRetry_def DEFAULT_shouldRetry_def)

theorem withRetry_client_error_once_witness:
  "withRetry (alwaysFails notFound404 :: nat \<Rightarrow> js_error + unit) (onlyMaxAttempts 5)
     = (Threw (Some notFound404), [Invoke 1])"
  using withRetry_client_error_once [of "alwaysFails notFound404 :: nat \<Rightarrow> js_error + unit"
          notFound404 404 "onlyMaxAttempts 5"]
  by (simp add: alwaysFails_def notFound404_def onlyMaxAttempts_def)

text \<open>Every delay computed by the back-off step is capped: from the second sleep on, no sleep exceeds \<open>maxDelay\<close>.\<close>

lemma sleeps_loop_capped:
  "delay \<le> opt_maxDelay opts \<Longrightarrow>
   list_all (\<lambda>d. d \<le> opt_maxDelay opts) (sleeps (snd (withRetry_loop opts fn attempt delay lastError)))"
proof (induction opts fn attempt delay lastError rule: withRetry_loop.induct)
  case (1 opts fn attempt delay lastError)
  show ?case
  proof (cases "attempt \<le> opt_maxAttempts opts")
    case False
    then show ?thesis by (simp add: withRetry_loop.simps [of opts fn attempt])
  next
    case True
    show ?thesis
    proof (cases "fn attempt")
      case (Inr v)
      with True show ?thesis by (simp add: withRetry_loop.simps [of opts fn attempt])
    next
      case (Inl error)
      show ?thesis
      proof (cases "attempt = opt_maxAttempts opts \<or> \<not> opt_shouldRetry opts error")
        case stop: True
        with Inl True show ?thesis by (auto simp: withRetry_loop.simps [of opts fn attempt])
      next
        case False
        with Inl True "1.prems" "1.IH" [of error] show ?thesis
          by (simp add: withRetry_loop.simps [of opts fn attempt] apsnd_def map_prod_def split_beta)
      qed
    qed
  qed
qed

lemma sleeps_after_first_capped:
  "list_all (\<lambda>d. d \<le> opt_maxDelay options) (tl (sleeps (snd (withRetry fn options))))"
proof (cases "1 \<le> opt_maxAttempts options")
  case False
  then show ?thesis by (simp add: withRetry_def withRetry_loop.simps [of options fn "Suc 0"])
next
  case True
  show ?thesis
  proof (cases "fn 1")
    case (Inr v)
    with True show ?thesis by (simp add: withRetry_def withRetry_loop.simps [of options fn "Suc 0"])
  next
    case (Inl error)
    show ?thesis
    proof (cases "1 = opt_maxAttempts options \<or> \<not> opt_shouldRetry options error")
      case stop: True
      with Inl True show ?thesis by (auto simp: withRetry_def withRetry_loop.simps [of options fn "Suc 0"])
    next
      case False
      have "list_all (\<lambda>d. d \<le> opt_maxDelay options)
              (sleeps (snd (withRetry_loop options fn 2
                 (min (opt_initialDelay options * opt_backoffMultiplier options) (opt_maxDelay options)) (Some error))))"
        by (rule sleeps_loop_capped) simp
      with False Inl True show ?thesis
        by (simp add: withRetry_def withRetry_loop.simps [of options fn "Suc 0"] apsnd_def map_prod_def
              split_beta numeral_2_eq_2)
    qed
  qed
qed

text \<open>The first sleep, when there is one, lasts \<open>initialDelay\<close>, whatever \<open>maxDelay\<close> is.\<close>

lemma first_sleep_is_initialDelay:
  "sleeps (snd (withRetry fn options)) \<noteq> [] \<Longrightarrow> hd (sleeps (snd (withRetry fn options))) = opt_initialDelay options"
  by (auto simp: withRetry_def withRetry_loop.simps [of options fn "Suc 0"] apsnd_def map_prod_def split_beta
           split: sum.splits if_splits)

text \<open>
  C4: every sleep is at most \<open>maxDelay\<close>, the first one included. The code does not do
  this: with \<open>initialDelay = 20000\<close> and \<open>maxDelay = 10000\<close>, against an operation
  that keeps failing with a retryable error, the first sleep lasts 20000 ms; only the
  second one is capped.
\<close>

theorem withRetry_first_sleep_uncapped:
  "opt_maxDelay longInitialDelay = 10000 \<and>
   sleeps (snd (withRetry (alwaysFails refused :: nat \<Rightarrow> js_error + unit) longInitialDelay)) = [20000, 10000]"
  by (simp add: withRetry_def withRetry_loop.simps alwaysFails_def refused_def longInitialDelay_def
        opt_maxAttempts_def opt_initialDelay_def opt_maxDelay_def opt_backoffMultiplier_def
        opt_shouldRetry_def DEFAULT_shouldRetry_def)

section \<open>Properties of the health scores\<close>

lemma healthScoreLoop_counts:
  "healthScoreLoop score issues =
     score - 30 * int (length (filter (\<lambda>i. severity i = Critical) issues))
           - 20 * int (length (filter (\<lambda>i. severity i = High) issues))
           - 10 * int (length (filter (\<lambda>i. severity i = Medium) issues))
           - 5 * int (length (filter (\<lambda>i. severity i = Low) issues))"
  by (induction issues arbitrary: score) auto

text \<open>
  C2: for every phase (any string, or none) and every list of issues, the pod-level score
  is 100, less 100 for \<open>Failed\<close>, 30 for \<open>Pending\<close>, 50 for \<open>Unknown\<close>, less 30 for each
  critical, 20 for each high, 10 for each medium and 5 for each low issue, clamped to
  \<open>[0, 100]\<close>.
\<close>

theorem calculateHealthScore_formula:
  "calculateHealthScore pod issues =
     max 0 (min 100
       (100
        - (if status_phase pod = Some ''Failed'' then 100
           else if status_phase pod = Some ''Pending'' then 30
           else if status_phase pod = Some ''Unknown'' then 50 else 0)
        - 30 * int (length (filter (\<lambda>i. severity i = Critical) issues))
        - 20 * int (length (filter (\<lambda>i. severity i = High) issues))
        - 10 * int (length (filter (\<lambda>i. severity i = Medium) issues))
        - 5 * int (length (filter (\<lambda>i. severity i = Low) issues))))
   \<and> 0 \<le> calculateHealthScore pod issues \<and> calculateHealthScore pod issues \<le> 100"
  by (simp add: calculateHealthScore_def healthScoreLoop_counts Let_def)

lemma overallScoreLoop_counts:
  "overallScoreLoop (Fin score) issues =
     Fin (score - 10 * real (length (filter (\<lambda>i. severity i = Critical) issues))
           - 5 * real (length (filter (\<lambda>i. severity i = High) issues))
           - 2 * real (length (filter (\<lambda>i. severity i = Medium) issues)))"
  by (induction issues arbitrary: score) (auto simp: js_sub_def)

lemma clamp_Fin: "Math_max (Fin 0) (Math_min (Fin 100) (Fin x)) = Fin (max 0 (min 100 x))"
  by (simp add: max_def min_def)

text \<open>
  With at least one node and at least one pod the cluster-level score is the clamped
  weighted sum.
\<close>

lemma calculateOverallScore_formula:
  assumes "0 < totalNodes" and "0 < ps_total podStats"
  shows "calculateOverallScore totalNodes readyNodes podStats issues =
     Fin (max 0 (min 100
       (100
        - (100 - real readyNodes / real totalNodes * 100) * 0.5
        - (100 - real (ps_running podStats) / real (ps_total podStats) * 100) * 0.3
        - real (ps_crashLooping podStats) * 5
        - 10 * real (length (filter (\<lambda>i. severity i = Critical) issues))
        - 5 * real (length (filter (\<lambda>i. severity i = High) issues))
        - 2 * real (length (filter (\<lambda>i. severity i = Medium) issues)))))"
proof -
  have n: "js_div (Fin (real readyNodes)) (Fin (real totalNodes)) = Fin (real readyNodes / real totalNodes)"
    using assms(1) by simp
  have p: "js_div (Fin (real (ps_running podStats))) (Fin (real (ps_total podStats)))
           = Fin (real (ps_running podStats) / real (ps_total podStats))"
    using assms(2) by simp
  show ?thesis
    unfolding calculateOverallScore_def Let_def n p
    by (simp only: js_sub_def js_mul.simps js_neg.simps js_add.simps overallScoreLoop_counts clamp_Fin) simp
qed

text \<open>Without pods the pod percentage is \<open>0/0\<close>, and NaN passes through every later step.\<close>

lemma js_add_NaN: "js_add x NaN = NaN"
  by (cases x) simp_all

lemma overallScoreLoop_NaN: "overallScoreLoop NaN issues = NaN"
  by (induction issues) (simp_all add: js_sub_def)

lemma calculateOverallScore_no_pods:
  assumes "ps_total podStats = 0" and "ps_running podStats = 0"
  shows "calculateOverallScore totalNodes readyNodes podStats issues = NaN"
proof -
  have "js_div (Fin (real (ps_running podStats))) (Fin (real (ps_total podStats))) = NaN"
    using assms by (simp add: js_inf_def)
  then show ?thesis
    by (simp add: calculateOverallScore_def Let_def js_sub_def js_add_NaN overallScoreLoop_NaN)
qed

text \<open>
  C1: the cluster-level score lies in \<open>[0, 100]\<close> also for a cluster with no pods or no
  nodes. The code does not do this: for three ready nodes and a namespace without pods,
  and for a cluster without nodes, the percentage is \<open>0/0\<close> and the score returned is
  NaN, which \<open>Math.min\<close> and \<open>Math.max\<close> let through.
\<close>

theorem calculateOverallScore_NaN:
  "calculateOverallScore 3 3 emptyNamespace [] = NaN \<and> calculateOverallScore 0 0 allRunning [] = NaN"
  by (simp add: calculateOverallScore_def Let_def js_sub_def js_inf_def emptyNamespace_def allRunning_def)

section \<open>Properties of the resource usage analysis\<close>

lemma resourceUsageResult_fields:
  "isThrottled (resourceUsageResult a b c d cc cm pc pm) = (case pc of None \<Rightarrow> False | Some p \<Rightarrow> js_ge p (Fin 80))"
  "isOOMRisk (resourceUsageResult a b c d cc cm pc pm) = (case pm of None \<Rightarrow> False | Some p \<Rightarrow> js_ge p (Fin 90))"
  "cpu_usagePercent (resourceUsageResult a b c d cc cm pc pm) = pc"
  "memory_usagePercent (resourceUsageResult a b c d cc cm pc pm) = pm"
  "cpu_current (resourceUsageResult a b c d cc cm pc pm) = cc"
  "memory_current (resourceUsageResult a b c d cc cm pc pm) = cm"
  "cpu_limit (resourceUsageResult a b c d cc cm pc pm) = b"
  "memory_limit (resourceUsageResult a b c d cc cm pc pm) = d"
  by (simp_all add: resourceUsageResult_def)

text \<open>
  C5: the analysis always returns a result; in it, for CPU and for memory,
  \<open>usagePercent\<close> is present exactly when \<open>current\<close> is present and the limit is
  greater than \<open>0\<close>, and is then \<open>current / limit * 100\<close> (so no division by a limit
  of \<open>0\<close> is ever made); \<open>isThrottled\<close> holds exactly when the CPU percentage is
  present and at least 80, \<open>isOOMRisk\<close> exactly when the memory percentage is present
  and at least 90.
\<close>

theorem analyzeResourceUsage_usagePercent:
  "\<exists>r. analyzeResourceUsage rt pod namespace podName metricsApi = Inr r \<and>
       cpu_usagePercent r =
         (case cpu_current r of
            None \<Rightarrow> None
          | Some current \<Rightarrow> if js_gt (cpu_limit r) (Fin 0)
                            then Some (js_mul (js_div current (cpu_limit r)) (Fin 100)) else None) \<and>
       memory_usagePercent r =
         (case memory_current r of
            None \<Rightarrow> None
          | Some current \<Rightarrow> if js_gt (memory_limit r) (Fin 0)
                            then Some (js_mul (js_div current (memory_limit r)) (Fin 100)) else None) \<and>
       (cpu_usagePercent r \<noteq> None) = (cpu_current r \<noteq> None \<and> js_gt (cpu_limit r) (Fin 0)) \<and>
       (memory_usagePercent r \<noteq> None) = (memory_current r \<noteq> None \<and> js_gt (memory_limit r) (Fin 0)) \<and>
       isThrottled r = (case cpu_usagePercent r of None \<Rightarrow> False | Some p \<Rightarrow> js_ge p (Fin 80)) \<and>
       isOOMRisk r = (case memory_usagePercent r of None \<Rightarrow> False | Some p \<Rightarrow> js_ge p (Fin 90))"
proof (cases metricsApi)
  case None
  then show ?thesis
    by (simp add: analyzeResourceUsage_def Let_def resourceUsageResult_fields)
next
  case (Some getPodMetrics)
  have ne: "fst (withRetry (getPodMetrics namespace) metricsRetryOptions) \<noteq> Threw None"
    by (rule withRetry_throws_error) (simp add: opt_maxAttempts_def metricsRetryOptions_def)
  show ?thesis
  proof (cases "fst (withRetry (getPodMetrics namespace) metricsRetryOptions)")
    case (Threw thrown)
    with ne obtain error where "thrown = Some error" by (cases thrown) auto
    with Threw Some show ?thesis
      by (simp add: analyzeResourceUsage_def Let_def resourceUsageResult_fields)
  next
    case (Returned metrics)
    show ?thesis
    proof (cases "find (\<lambda>item. pm_name item = Some podName)
                          (case pm_items metrics of None \<Rightarrow> [] | Some items \<Rightarrow> items)")
      case None
      with Returned Some show ?thesis
        by (simp add: analyzeResourceUsage_def Let_def resourceUsageResult_fields)
    next
      case found: (Some podMetric)
      with Returned Some show ?thesis
        by (simp add: analyzeResourceUsage_def Let_def resourceUsageResult_fields)
    qed
  qed
qed

lemma analyzeResourceUsage_returns:
  "\<exists>r. analyzeResourceUsage rt pod namespace podName metricsApi = Inr r"
proof (cases metricsApi)
  case None
  then show ?thesis
    by (simp add: analyzeResourceUsage_def Let_def)
next
  case (Some getPodMetrics)
  have ne: "fst (withRetry (getPodMetrics namespace) metricsRetryOptions) \<noteq> Threw None"
    by (rule withRetry_throws_error) (simp add: opt_maxAttempts_def metricsRetryOptions_def)
  show ?thesis
  proof (cases "fst (withRetry (getPodMetrics namespace) metricsRetryOptions)")
    case (Threw thrown)
    with ne obtain error where "thrown = Some error" by (cases thrown) auto
    with Threw Some show ?thesis
      by (simp add: analyzeResourceUsage_def Let_def)
  next
    case (Returned metrics)
    with Some show ?thesis
      by (simp add: analyzeResourceUsage_def Let_def split: option.splits)
  qed
qed

section \<open>Properties of the message normalization\<close>

text \<open>What \<open>trim\<close> returns is a contiguous part of the string, and has no white space left at either end.\<close>

lemma startsWith_append: "startsWith p w \<Longrightarrow> startsWith (p @ q) w"
proof -
  assume a: "startsWith p w"
  then have "length (take (length w) p) = length w"
    by (simp only: startsWith_def)
  then have "length w \<le> length p"
    by simp
  with a show ?thesis
    by (simp add: startsWith_def)
qed

lemma startsWith_Nil: "startsWith [] w = (w = [])"
  by (auto simp: startsWith_def)

lemma dropLeading_suffix: "\<exists>p. s = p @ dropLeading ws s"
proof (induction ws s rule: dropLeading.induct)
  case (1 ws)
  then show ?case by simp
next
  case (2 ws c cs)
  show ?case
  proof (cases "find (startsWith (c # cs)) ws")
    case None
    then show ?thesis by simp
  next
    case (Some w)
    with 2 obtain p where "drop (length w - 1) cs = p @ dropLeading ws (drop (length w - 1) cs)"
      by blast
    then have "c # cs = (c # take (length w - 1) cs @ p) @ dropLeading ws (drop (length w - 1) cs)"
      by (metis append_Cons append_assoc append_take_drop_id)
    with Some show ?thesis
      by (metis dropLeading.simps(2) option.simps(5))
  qed
qed

lemma dropLeading_clean:
  "[] \<notin> set ws \<Longrightarrow> w \<in> set ws \<Longrightarrow> \<not> startsWith (dropLeading ws s) w"
proof (induction ws s rule: dropLeading.induct)
  case (1 ws)
  then show ?case by (auto simp: startsWith_Nil)
next
  case (2 ws c cs)
  show ?case
  proof (cases "find (startsWith (c # cs)) ws")
    case None
    then have "\<not> startsWith (c # cs) w"
      using "2.prems" by (auto simp: find_None_iff)
    with None show ?thesis by simp
  next
    case (Some v)
    with 2 show ?thesis by simp
  qed
qed

lemma dropLeading_id:
  "\<forall>w\<in>set ws. \<not> startsWith s w \<Longrightarrow> dropLeading ws s = s"
proof (cases s)
  case Nil
  then show ?thesis by simp
next
  case (Cons c cs)
  assume "\<forall>w\<in>set ws. \<not> startsWith s w"
  with Cons have "find (startsWith (c # cs)) ws = None"
    by (auto simp: find_None_iff)
  with Cons show ?thesis by simp
qed

lemma whiteSpaces_nonempty: "[] \<notin> set whiteSpaces" "[] \<notin> set (map rev whiteSpaces)"
  by (simp_all add: whiteSpaces_def)

lemma js_trim_infix: "\<exists>p q. s = p @ js_trim s @ q"
proof -
  obtain p where p: "s = p @ dropLeading whiteSpaces s"
    using dropLeading_suffix by blast
  obtain q where q: "rev (dropLeading whiteSpaces s)
      = q @ dropLeading (map rev whiteSpaces) (rev (dropLeading whiteSpaces s))"
    using dropLeading_suffix by blast
  then have "rev (rev (dropLeading whiteSpaces s))
      = rev (q @ dropLeading (map rev whiteSpaces) (rev (dropLeading whiteSpaces s)))"
    by (rule arg_cong)
  then have "dropLeading whiteSpaces s = js_trim s @ rev q"
    by (simp add: js_trim_def)
  with p have "s = p @ js_trim s @ rev q"
    by simp
  then show ?thesis
    by blast
qed

lemma js_trim_subset: "set (js_trim s) \<subseteq> set s"
proof -
  obtain p q where "s = p @ js_trim s @ q"
    using js_trim_infix by blast
  then have "set s = set p \<union> set (js_trim s) \<union> set q"
    by (metis set_append sup_assoc)
  then show ?thesis
    by blast
qed

lemma js_trim_idem: "js_trim (js_trim s) = js_trim s"
proof -
  define u where "u = dropLeading whiteSpaces s"
  define v where "v = dropLeading (map rev whiteSpaces) (rev u)"
  have t: "js_trim s = rev v"
    by (simp add: js_trim_def u_def v_def)
  obtain q where "rev u = q @ v"
    unfolding v_def using dropLeading_suffix by blast
  then have "rev (rev u) = rev (q @ v)"
    by (rule arg_cong)
  then have u: "u = rev v @ rev q"
    by simp
  have "\<forall>w\<in>set whiteSpaces. \<not> startsWith (rev v) w"
  proof
    fix w assume w: "w \<in> set whiteSpaces"
    have "\<not> startsWith u w"
      unfolding u_def using whiteSpaces_nonempty(1) w by (rule dropLeading_clean)
    with u show "\<not> startsWith (rev v) w"
      using startsWith_append [of "rev v" w "rev q"] by auto
  qed
  then have 1: "dropLeading whiteSpaces (rev v) = rev v"
    by (rule dropLeading_id)
  have "\<forall>w\<in>set (map rev whiteSpaces). \<not> startsWith v w"
  proof
    fix w assume w: "w \<in> set (map rev whiteSpaces)"
    show "\<not> startsWith v w"
      unfolding v_def using whiteSpaces_nonempty(2) w by (rule dropLeading_clean)
  qed
  then have 2: "dropLeading (map rev whiteSpaces) v = v"
    by (rule dropLeading_id)
  have "js_trim (rev v) = rev (dropLeading (map rev whiteSpaces) (rev (dropLeading whiteSpaces (rev v))))"
    by (simp only: js_trim_def)
  also have "\<dots> = rev v"
    by (simp only: 1 2 rev_rev_ident)
  finally show ?thesis
    by (simp only: t)
qed


lemma lowerChar_not_upper: "\<not> isUpper c \<Longrightarrow> lowerChar c = c"
  by (simp add: lowerChar_def)

lemma of_char_lowerChar_upper:
  assumes "isUpper c"
  shows "(of_char (lowerChar c) :: nat) = of_char c + 32"
proof -
  from assms have "(of_char c :: nat) + 32 < 256"
    by (simp add: isUpper_def)
  from assms have "lowerChar c = char_of ((of_char c :: nat) + 32)"
    by (simp add: lowerChar_def)
  then have "(of_char (lowerChar c) :: nat) = ((of_char c :: nat) + 32) mod 256"
    by simp
  also from \<open>(of_char c :: nat) + 32 < 256\<close> have "\<dots> = of_char c + 32"
    by (rule mod_less)
  finally show ?thesis .
qed

lemma isDigit_lowerChar: "isDigit (lowerChar c) = isDigit c"
proof (cases "isUpper c")
  case True
  then have "(of_char (lowerChar c) :: nat) = of_char c + 32" and "65 \<le> (of_char c :: nat)"
    by (simp_all add: of_char_lowerChar_upper isUpper_def)
  then show ?thesis
    by (simp add: isDigit_def)
next
  case False
  then show ?thesis
    by (simp add: lowerChar_not_upper)
qed

lemma lowerChar_idem: "lowerChar (lowerChar c) = lowerChar c"
proof (cases "isUpper c")
  case True
  then have "(of_char (lowerChar c) :: nat) = of_char c + 32" and "65 \<le> (of_char c :: nat)"
    by (simp_all add: of_char_lowerChar_upper isUpper_def)
  then have "\<not> isUpper (lowerChar c)"
    by (simp add: isUpper_def)
  then show ?thesis
    by (rule lowerChar_not_upper)
next
  case False
  then show ?thesis
    by (simp add: lowerChar_not_upper)
qed

text \<open>Lower-casing yields a byte outside ASCII only from that byte.\<close>

lemma lowerChar_high:
  assumes "lowerChar c = b" and "128 \<le> (of_char b :: nat)"
  shows "c = b"
proof (cases "isUpper c")
  case True
  then have "(of_char (lowerChar c) :: nat) = of_char c + 32" and "(of_char c :: nat) \<le> 90"
    by (simp_all add: of_char_lowerChar_upper isUpper_def)
  with assms show ?thesis
    by simp
next
  case False
  with assms show ?thesis
    by (simp add: lowerChar_not_upper)
qed

lemma lowerChar_zero:
  assumes "lowerChar c = lowerChar CHR ''0''"
  shows "isDigit c"
proof -
  have "isDigit CHR ''0''"
    by (simp add: isDigit_def)
  then have "isDigit (lowerChar CHR ''0'')"
    by (simp only: isDigit_lowerChar)
  with assms have "isDigit (lowerChar c)"
    by (simp only:)
  then show ?thesis
    by (simp only: isDigit_lowerChar)
qed

lemma startsWith_Cons: "startsWith (c # cs) (b # bs) = (c = b \<and> startsWith cs bs)"
  by (simp add: startsWith_def)

lemma startsWith_empty: "startsWith s [] = True"
  by (simp add: startsWith_def)

lemma startsWith_map_lowerChar:
  "startsWith (map lowerChar z) w \<Longrightarrow> \<forall>b\<in>set w. 128 \<le> (of_char b :: nat) \<Longrightarrow> startsWith z w"
proof (induction z arbitrary: w)
  case Nil
  then show ?case by (simp add: startsWith_Nil)
next
  case (Cons c z)
  show ?case
  proof (cases w)
    case Nil
    then show ?thesis by (simp add: startsWith_empty)
  next
    case (Cons b bs)
    with Cons.prems have 1: "lowerChar c = b" and 2: "startsWith (map lowerChar z) bs"
      and 3: "128 \<le> (of_char b :: nat)" and 4: "\<forall>b\<in>set bs. 128 \<le> (of_char b :: nat)"
      by (simp_all add: startsWith_Cons)
    from 1 3 have "c = b" by (rule lowerChar_high)
    moreover from 2 4 have "startsWith z bs" by (rule Cons.IH)
    ultimately show ?thesis
      using Cons by (simp add: startsWith_Cons)
  qed
qed

lemma js_includes_map_lowerChar:
  "js_includes (map lowerChar z) w \<Longrightarrow> \<forall>b\<in>set w. 128 \<le> (of_char b :: nat) \<Longrightarrow> js_includes z w"
proof (induction z)
  case Nil
  then show ?case by simp
next
  case (Cons c z)
  from Cons.prems(1) have "startsWith (map lowerChar (c # z)) w \<or> js_includes (map lowerChar z) w"
    by simp
  then show ?case
  proof
    assume "startsWith (map lowerChar (c # z)) w"
    then have "startsWith (c # z) w"
      using Cons.prems(2) by (rule startsWith_map_lowerChar)
    then show ?thesis by simp
  next
    assume "js_includes (map lowerChar z) w"
    then have "js_includes z w"
      using Cons.prems(2) by (rule Cons.IH)
    then show ?thesis by simp
  qed
qed

lemma js_includes_append_right: "js_includes t w \<Longrightarrow> js_includes (t @ q) w"
proof (induction t)
  case Nil
  then have "w = []" by simp
  then show ?case by (cases q) (simp_all add: startsWith_empty)
next
  case (Cons c t)
  from Cons.prems have "startsWith (c # t) w \<or> js_includes t w"
    by simp
  then show ?case
  proof
    assume "startsWith (c # t) w"
    then have "startsWith ((c # t) @ q) w" by (rule startsWith_append)
    then show ?thesis by simp
  next
    assume "js_includes t w"
    then have "js_includes (t @ q) w" by (rule Cons.IH)
    then show ?thesis by simp
  qed
qed

lemma js_includes_append_left: "js_includes t w \<Longrightarrow> js_includes (p @ t) w"
  by (induction p) simp_all

lemma js_includes_infix: "js_includes t w \<Longrightarrow> js_includes (p @ t @ q) w"
  by (simp only: js_includes_append_left js_includes_append_right)

text \<open>The first bytes of a string after the two special characters are replaced.\<close>

lemma lowerSpecial_first:
  "startsWith (lowerSpecial s) [b] \<Longrightarrow> b \<noteq> CHR ''k'' \<Longrightarrow> b \<noteq> CHR ''i'' \<Longrightarrow> startsWith s [b]"
  by (cases s) (auto simp: startsWith_Cons startsWith_Nil startsWith_empty split: if_splits)

lemma lowerSpecial_first_two:
  assumes "startsWith (lowerSpecial s) [a, b]"
    and "a \<noteq> CHR ''k''" and "a \<noteq> CHR ''i''" and "b \<noteq> CHR ''k''" and "b \<noteq> CHR ''i''"
  shows "startsWith s [a, b]"
proof (cases s)
  case Nil
  with assms(1) show ?thesis by (simp add: startsWith_Nil)
next
  case (Cons c cs)
  with assms(1-3) have 1: "lowerSpecial (c # cs) = c # lowerSpecial cs"
    by (auto simp: startsWith_Cons split: if_splits)
  with assms(1) Cons have "c = a" and "startsWith (lowerSpecial cs) [b]"
    by (simp_all add: startsWith_Cons)
  moreover from this(2) assms(4,5) have "startsWith cs [b]"
    by (rule lowerSpecial_first)
  ultimately show ?thesis
    using Cons by (simp add: startsWith_Cons)
qed

lemma lowerSpecial_no_kelvinSign: "\<not> js_includes (lowerSpecial s) kelvinSign"
proof (induction s rule: lowerSpecial.induct)
  case 1
  then show ?case by (simp add: kelvinSign_def)
next
  case (2 c cs)
  show ?case
  proof (cases "startsWith (c # cs) kelvinSign")
    case True
    with 2 show ?thesis
      by (simp add: startsWith_Cons) (simp add: kelvinSign_def startsWith_Cons)
  next
    case k: False
    show ?thesis
    proof (cases "startsWith (c # cs) capitalIWithDot")
      case True
      with k 2 show ?thesis
        by simp (simp add: kelvinSign_def startsWith_Cons)
    next
      case False
      have "\<not> startsWith (c # lowerSpecial cs) kelvinSign"
      proof
        assume "startsWith (c # lowerSpecial cs) kelvinSign"
        then have c: "c = CHR 0xE2" and l: "startsWith (lowerSpecial cs) [CHR 0x84, CHR 0xAA]"
          by (simp_all add: kelvinSign_def startsWith_Cons)
        from l have "startsWith cs [CHR 0x84, CHR 0xAA]"
          by (rule lowerSpecial_first_two) simp_all
        with c have "startsWith (c # cs) kelvinSign"
          by (simp add: kelvinSign_def startsWith_Cons)
        with k show False ..
      qed
      with k False 2 show ?thesis
        by simp
    qed
  qed
qed

lemma lowerSpecial_no_capitalIWithDot: "\<not> js_includes (lowerSpecial s) capitalIWithDot"
proof (induction s rule: lowerSpecial.induct)
  case 1
  then show ?case by (simp add: capitalIWithDot_def)
next
  case (2 c cs)
  show ?case
  proof (cases "startsWith (c # cs) kelvinSign")
    case True
    with 2 show ?thesis
      by (simp add: startsWith_Cons) (simp add: capitalIWithDot_def startsWith_Cons)
  next
    case k: False
    show ?thesis
    proof (cases "startsWith (c # cs) capitalIWithDot")
      case True
      with k 2 show ?thesis
        by simp (simp add: capitalIWithDot_def startsWith_Cons)
    next
      case False
      have "\<not> startsWith (c # lowerSpecial cs) capitalIWithDot"
      proof
        assume "startsWith (c # lowerSpecial cs) capitalIWithDot"
        then have c: "c = CHR 0xC4" and l: "startsWith (lowerSpecial cs) [CHR 0xB0]"
          by (simp_all add: capitalIWithDot_def startsWith_Cons)
        from l have "startsWith cs [CHR 0xB0]"
          by (rule lowerSpecial_first) simp_all
        with c have "startsWith (c # cs) capitalIWithDot"
          by (simp add: capitalIWithDot_def startsWith_Cons)
        with False show False ..
      qed
      with k False 2 show ?thesis
        by simp
    qed
  qed
qed

lemma lowerSpecial_unchanged:
  "\<not> js_includes t kelvinSign \<Longrightarrow> \<not> js_includes t capitalIWithDot \<Longrightarrow> lowerSpecial t = t"
  by (induction t) simp_all

lemma high_bytes:
  "\<forall>b\<in>set kelvinSign. 128 \<le> (of_char b :: nat)" "\<forall>b\<in>set capitalIWithDot. 128 \<le> (of_char b :: nat)"
  by (simp_all add: kelvinSign_def capitalIWithDot_def)

text \<open>Every contiguous part of a lower-cased string is its own lower case.\<close>

lemma toLowerCase_part:
  assumes "toLowerCase x = p @ t @ q"
  shows "toLowerCase t = t"
proof -
  have "\<not> js_includes t kelvinSign"
  proof
    assume "js_includes t kelvinSign"
    then have "js_includes (p @ t @ q) kelvinSign"
      by (rule js_includes_infix)
    with assms have "js_includes (map lowerChar (lowerSpecial x)) kelvinSign"
      by (simp add: toLowerCase_def)
    then have "js_includes (lowerSpecial x) kelvinSign"
      using high_bytes(1) by (rule js_includes_map_lowerChar)
    then show False
      by (simp add: lowerSpecial_no_kelvinSign)
  qed
  moreover have "\<not> js_includes t capitalIWithDot"
  proof
    assume "js_includes t capitalIWithDot"
    then have "js_includes (p @ t @ q) capitalIWithDot"
      by (rule js_includes_infix)
    with assms have "js_includes (map lowerChar (lowerSpecial x)) capitalIWithDot"
      by (simp add: toLowerCase_def)
    then have "js_includes (lowerSpecial x) capitalIWithDot"
      using high_bytes(2) by (rule js_includes_map_lowerChar)
    then show False
      by (simp add: lowerSpecial_no_capitalIWithDot)
  qed
  ultimately have "lowerSpecial t = t"
    by (rule lowerSpecial_unchanged)
  moreover have "map lowerChar t = t"
  proof -
    from assms have "set t \<subseteq> set (map lowerChar (lowerSpecial x))"
      by (simp add: toLowerCase_def) (metis Un_upper1 Un_upper2 set_append subset_trans)
    then have "\<forall>c\<in>set t. lowerChar c = c"
      by (auto simp: lowerChar_idem)
    then show ?thesis
      by (simp add: map_idI)
  qed
  ultimately show ?thesis
    by (simp add: toLowerCase_def)
qed

lemma toLowerCase_idem: "toLowerCase (toLowerCase s) = toLowerCase s"
  using toLowerCase_part [of s "[]" "toLowerCase s" "[]"] by simp

lemma toLowerCase_js_trim_toLowerCase:
  "toLowerCase (js_trim (toLowerCase s)) = js_trim (toLowerCase s)"
proof -
  obtain p q where "toLowerCase s = p @ js_trim (toLowerCase s) @ q"
    using js_trim_infix by blast
  then show ?thesis
    by (rule toLowerCase_part)
qed

text \<open>A string without a digit is matched by none of the five expressions.\<close>


lemma cats_Cons: "cats (r # rs) = Cat r (cats rs)"
  by (simp add: cats_def)

lemma cats_Nil: "cats [] = Empty"
  by (simp add: cats_def)

lemma lens_Cat_Nil: "lens f a s = [] \<Longrightarrow> lens f (Cat a b) s = []"
  by simp

lemma lens_digit_Nil: "lens f digit [] = []"
  by (simp add: digit_def)

lemma lens_digit_Cons: "lens f digit (c # cs) = (if isDigit c then [1] else [])"
  by (simp add: digit_def)

lemma lens_Rep_digit_Nil:
  assumes "0 < lo" and "s = [] \<or> \<not> isDigit (hd s)"
  shows "lens f (Rep g lo hi digit) s = []"
proof (cases f)
  case 0
  with assms show ?thesis by simp
next
  case (Suc f')
  from assms(2) have "lens (Suc f') digit s = []"
    by (cases s) (simp_all add: lens_digit_Nil lens_digit_Cons)
  with Suc assms(1) show ?thesis
    by (simp add: Let_def)
qed

lemma lens_Cat_Class:
  "lens f (Cat (Class p) b) (c # cs) = (if p c then map (\<lambda>m. 1 + m) (lens f b cs) else [])"
  by simp

lemma matchAt_isoTimestamp_None:
  "s = [] \<or> \<not> isDigit (hd s) \<Longrightarrow> matchAt re_isoTimestamp s = None"
  by (simp add: matchAt_def re_isoTimestamp_def cats_Cons digits_def lens_Cat_Nil lens_Rep_digit_Nil)

lemma matchAt_ipAddress_None:
  "s = [] \<or> \<not> isDigit (hd s) \<Longrightarrow> matchAt re_ipAddress s = None"
  by (simp add: matchAt_def re_ipAddress_def cats_Cons digitsBetween_def lens_Cat_Nil lens_Rep_digit_Nil)

lemma matchAt_number_None:
  "s = [] \<or> \<not> isDigit (hd s) \<Longrightarrow> matchAt re_number s = None"
  by (simp add: matchAt_def re_number_def cats_Cons digitsPlus_def lens_Cat_Nil lens_Rep_digit_Nil)

lemma matchAt_port_None:
  assumes "\<forall>c\<in>set s. \<not> isDigit c"
  shows "matchAt re_port s = None"
proof (cases s)
  case Nil
  then show ?thesis
    by (simp add: matchAt_def re_port_def cats_Cons chr_def)
next
  case (Cons c cs)
  with assms have "cs = [] \<or> \<not> isDigit (hd cs)"
    by (cases cs) simp_all
  then have "lens f (Cat (digitsBetween 2 5) (cats [])) cs = []" for f
    by (simp add: digitsBetween_def lens_Cat_Nil lens_Rep_digit_Nil)
  with Cons show ?thesis
    by (simp only: matchAt_def re_port_def cats_Cons chr_def lens_Cat_Class) simp
qed

lemma matchAt_hex_None:
  assumes "s = [] \<or> \<not> isDigit (hd s)"
  shows "matchAt re_hex s = None"
proof (cases s)
  case Nil
  then show ?thesis
    by (simp add: matchAt_def re_hex_def cats_Cons chr_i_def)
next
  case (Cons c cs)
  with assms have "lowerChar c \<noteq> lowerChar CHR ''0''"
    using lowerChar_zero [of c] by auto
  with Cons show ?thesis
    by (simp add: matchAt_def re_hex_def cats_Cons chr_i_def)
qed

lemma replaceAll_unchanged:
  assumes "\<And>t. \<forall>c\<in>set t. \<not> isDigit c \<Longrightarrow> matchAt re t = None"
    and "\<forall>c\<in>set s. \<not> isDigit c"
  shows "replaceAll re rep s = s"
  using assms(2)
proof (induction s)
  case Nil
  then show ?case by (simp add: assms(1))
next
  case (Cons c cs)
  then have "matchAt re (c # cs) = None"
    by (intro assms(1))
  with Cons show ?case by simp
qed

lemma head_of_digit_free: "\<forall>c\<in>set s. \<not> isDigit c \<Longrightarrow> s = [] \<or> \<not> isDigit (hd s)"
  by (cases s) simp_all

text \<open>After the pass that replaces numbers no digit is left.\<close>


lemma lens_Rep_zero_nonempty: "lens f (Rep g 0 hi a) s \<noteq> []"
  by (cases f) (simp_all add: Let_def)

lemma lens_Rep_positive:
  "0 < lo \<Longrightarrow> \<forall>n\<in>set (lens f (Rep g lo hi a) s). 0 < n"
  by (cases f) (auto simp: Let_def split: if_splits)

lemma matchAt_number_digit:
  assumes "isDigit c"
  shows "matchAt re_number (c # cs) \<noteq> None"
proof -
  have "lens (length cs) (Rep True 0 None digit) cs \<noteq> []"
    by (rule lens_Rep_zero_nonempty)
  with assms show ?thesis
    by (auto simp: matchAt_def re_number_def cats_Cons cats_Nil digitsPlus_def lens_digit_Cons Let_def
             split: list.splits)
qed

lemma matchAt_number_positive: "matchAt re_number s = Some n \<Longrightarrow> 0 < n"
proof -
  assume m: "matchAt re_number s = Some n"
  have "\<forall>k\<in>set (lens (length s) (Rep True 1 None digit) s). 0 < k"
    by (rule lens_Rep_positive) simp
  then have "\<forall>k\<in>set (lens (length s) re_number s). 0 < k"
    by (auto simp: re_number_def cats_Cons cats_Nil digitsPlus_def)
  moreover from m have "n \<in> set (lens (length s) re_number s)"
    by (auto simp: matchAt_def split: list.splits)
  ultimately show ?thesis by blast
qed

lemma num_digit_free: "\<forall>c\<in>set ''<num>''. \<not> isDigit c"
  by (simp add: isDigit_def)

lemma replaceAll_number_digit_free_aux:
  "re = re_number \<Longrightarrow> rep = ''<num>'' \<Longrightarrow> \<forall>c\<in>set (replaceAll re rep s). \<not> isDigit c"
proof (induction re rep s rule: replaceAll.induct)
  case (1 re rep)
  then show ?case
    by (simp add: matchAt_number_None)
next
  case (2 re rep c cs)
  show ?case
  proof (cases "matchAt re (c # cs)")
    case None
    with "2.prems" have "\<not> isDigit c"
      using matchAt_number_digit [of c cs] by auto
    with None "2.IH"(1) "2.prems" show ?thesis
      by simp
  next
    case (Some n)
    with "2.prems" have "0 < n"
      by (simp add: matchAt_number_positive)
    with Some "2.IH"(3) [of n] "2.prems" num_digit_free show ?thesis
      by simp
  qed
qed

lemma replaceAll_number_digit_free:
  "\<forall>c\<in>set (replaceAll re_number ''<num>'' s). \<not> isDigit c"
  by (rule replaceAll_number_digit_free_aux) simp_all


text \<open>Lower-casing and trimming keep a string free of digits, and are idempotent.\<close>


lemma lowerSpecial_digit_free:
  "\<forall>c\<in>set s. \<not> isDigit c \<Longrightarrow> \<forall>c\<in>set (lowerSpecial s). \<not> isDigit c"
proof (induction s rule: lowerSpecial.induct)
  case 1
  then show ?case by simp
next
  case (2 c cs)
  have d: "\<forall>c\<in>set (drop n cs). \<not> isDigit c" for n
    using "2.prems" by (auto dest: in_set_dropD)
  have k: "\<not> isDigit CHR ''k''" "\<not> isDigit CHR ''i''" "\<not> isDigit CHR 0xCC" "\<not> isDigit CHR 0x87"
    by (simp_all add: isDigit_def)
  show ?case
  proof (cases "startsWith (c # cs) kelvinSign")
    case True
    with "2.IH"(1) d [of 2] k show ?thesis by simp
  next
    case kf: False
    show ?thesis
    proof (cases "startsWith (c # cs) capitalIWithDot")
      case True
      with kf "2.IH"(2) d [of 1] k show ?thesis by simp
    next
      case False
      with kf "2.IH"(3) "2.prems" show ?thesis by simp
    qed
  qed
qed

lemma toLowerCase_digit_free:
  "\<forall>c\<in>set s. \<not> isDigit c \<Longrightarrow> \<forall>c\<in>set (toLowerCase s). \<not> isDigit c"
  using lowerSpecial_digit_free [of s] by (simp add: toLowerCase_def isDigit_lowerChar)

lemma js_trim_digit_free:
  "\<forall>c\<in>set s. \<not> isDigit c \<Longrightarrow> \<forall>c\<in>set (js_trim s). \<not> isDigit c"
  using js_trim_subset [of s] by blast

lemma replaceAll_isoTimestamp_unchanged:
  "\<forall>c\<in>set s. \<not> isDigit c \<Longrightarrow> replaceAll re_isoTimestamp rep s = s"
proof (rule replaceAll_unchanged)
  fix t :: string
  assume "\<forall>c\<in>set t. \<not> isDigit c"
  then have "t = [] \<or> \<not> isDigit (hd t)" by (rule head_of_digit_free)
  then show "matchAt re_isoTimestamp t = None" by (rule matchAt_isoTimestamp_None)
qed

lemma replaceAll_ipAddress_unchanged:
  "\<forall>c\<in>set s. \<not> isDigit c \<Longrightarrow> replaceAll re_ipAddress rep s = s"
proof (rule replaceAll_unchanged)
  fix t :: string
  assume "\<forall>c\<in>set t. \<not> isDigit c"
  then have "t = [] \<or> \<not> isDigit (hd t)" by (rule head_of_digit_free)
  then show "matchAt re_ipAddress t = None" by (rule matchAt_ipAddress_None)
qed

lemma replaceAll_port_unchanged:
  "\<forall>c\<in>set s. \<not> isDigit c \<Longrightarrow> replaceAll re_port rep s = s"
proof (rule replaceAll_unchanged)
  fix t :: string
  assume "\<forall>c\<in>set t. \<not> isDigit c"
  then show "matchAt re_port t = None" by (rule matchAt_port_None)
qed

lemma replaceAll_number_unchanged:
  "\<forall>c\<in>set s. \<not> isDigit c \<Longrightarrow> replaceAll re_number rep s = s"
proof (rule replaceAll_unchanged)
  fix t :: string
  assume "\<forall>c\<in>set t. \<not> isDigit c"
  then have "t = [] \<or> \<not> isDigit (hd t)" by (rule head_of_digit_free)
  then show "matchAt re_number t = None" by (rule matchAt_number_None)
qed

lemma replaceAll_hex_unchanged:
  "\<forall>c\<in>set s. \<not> isDigit c \<Longrightarrow> replaceAll re_hex rep s = s"
proof (rule replaceAll_unchanged)
  fix t :: string
  assume "\<forall>c\<in>set t. \<not> isDigit c"
  then have "t = [] \<or> \<not> isDigit (hd t)" by (rule head_of_digit_free)
  then show "matchAt re_hex t = None" by (rule matchAt_hex_None)
qed

lemma normalizeErrorMessage_digit_free:
  "\<forall>c\<in>set (normalizeErrorMessage s). \<not> isDigit c"
proof -
  define n where "n = replaceAll re_number ''<num>''
              (replaceAll re_port '':<port>''
                (replaceAll re_ipAddress ''<ip>''
                  (replaceAll re_isoTimestamp ''<timestamp>'' s)))"
  have n: "\<forall>c\<in>set n. \<not> isDigit c"
    unfolding n_def by (rule replaceAll_number_digit_free)
  then have h: "replaceAll re_hex ''<hex>'' n = n"
    by (rule replaceAll_hex_unchanged)
  from n have "\<forall>c\<in>set (toLowerCase n). \<not> isDigit c"
    by (rule toLowerCase_digit_free)
  then have "\<forall>c\<in>set (js_trim (toLowerCase n)). \<not> isDigit c"
    by (rule js_trim_digit_free)
  moreover have "normalizeErrorMessage s = js_trim (toLowerCase n)"
    unfolding normalizeErrorMessage_def n_def [symmetric] by (simp only: h)
  ultimately show ?thesis
    by (simp only:)
qed

lemma normalizeErrorMessage_digit_free_unchanged:
  assumes "\<forall>c\<in>set s. \<not> isDigit c"
  shows "normalizeErrorMessage s = js_trim (toLowerCase s)"
proof -
  from assms have 1: "replaceAll re_isoTimestamp ''<timestamp>'' s = s"
    by (rule replaceAll_isoTimestamp_unchanged)
  from assms have 2: "replaceAll re_ipAddress ''<ip>'' s = s"
    by (rule replaceAll_ipAddress_unchanged)
  from assms have 3: "replaceAll re_port '':<port>'' s = s"
    by (rule replaceAll_port_unchanged)
  from assms have 4: "replaceAll re_number ''<num>'' s = s"
    by (rule replaceAll_number_unchanged)
  from assms have 5: "replaceAll re_hex ''<hex>'' s = s"
    by (rule replaceAll_hex_unchanged)
  show ?thesis
    unfolding normalizeErrorMessage_def by (simp only: 1 2 3 4 5)
qed


text \<open>
  C6: normalizing a normalized message changes nothing. The first pass leaves no digit
  (the pass for numbers replaces every run of digits, and nothing after it produces
  one), each of the five expressions needs a digit to match, and lower-casing and
  trimming are idempotent.
\<close>

theorem normalizeErrorMessage_idempotent:
  "normalizeErrorMessage (normalizeErrorMessage s) = normalizeErrorMessage s"
proof -
  obtain x where x: "normalizeErrorMessage s = js_trim (toLowerCase x)"
    unfolding normalizeErrorMessage_def by blast
  have "normalizeErrorMessage (normalizeErrorMessage s) = js_trim (toLowerCase (normalizeErrorMessage s))"
    by (rule normalizeErrorMessage_digit_free_unchanged) (rule normalizeErrorMessage_digit_free)
  also have "\<dots> = js_trim (js_trim (toLowerCase x))"
    by (simp only: x toLowerCase_js_trim_toLowerCase)
  also have "\<dots> = normalizeErrorMessage s"
    by (simp only: x js_trim_idem)
  finally show ?thesis .
qed

section \<open>Properties of diagnosePod\<close>

lemma parseEvents_Nil: "parseEvents rt [] = []"
  by (simp add: parseEvents_def js_sort_def)

text \<open>
  C7: when the pod fetch, after its retries, throws an error, \<open>diagnosePod\<close> throws an
  error whose message is \<open>Pod diagnosis failed: Cannot read pod\<close>, the pod name, a
  colon and the message of that error, and returns no result. When the pod fetch
  returns and the event fetch, after its retries, throws, \<open>diagnosePod\<close> returns a
  result, its event list is empty, and it is the result obtained from a cluster whose
  event list is empty.
\<close>

theorem diagnosePod_fetch_failures:
  "(fst (withRetry (readNamespacedPod coreApi podName namespace) podRetryOptions) = Threw (Some error)
      \<longrightarrow> diagnosePod rt coreApi namespace podName metricsApi
            = Inl (newError (''Pod diagnosis failed: Cannot read pod '' @ podName @ '': '' @ err_message error)))
   \<and> (fst (withRetry (readNamespacedPod coreApi podName namespace) podRetryOptions) = Returned pod
      \<and> fst (withRetry (listNamespacedEvent coreApi namespace (''involvedObject.name='' @ podName)) eventsRetryOptions)
            = Threw (Some error)
      \<longrightarrow> (\<exists>d. diagnosePod rt coreApi namespace podName metricsApi = Inr d \<and> pd_events d = []
               \<and> diagnosePod rt (coreApi\<lparr>listNamespacedEvent := \<lambda>ns selector k. Inr []\<rparr>) namespace podName metricsApi = Inr d))"
proof (intro conjI impI)
  assume "fst (withRetry (readNamespacedPod coreApi podName namespace) podRetryOptions) = Threw (Some error)"
  then show "diagnosePod rt coreApi namespace podName metricsApi
            = Inl (newError (''Pod diagnosis failed: Cannot read pod '' @ podName @ '': '' @ err_message error))"
    by (simp add: diagnosePod_def Let_def newError_def)
next
  assume a: "fst (withRetry (readNamespacedPod coreApi podName namespace) podRetryOptions) = Returned pod
      \<and> fst (withRetry (listNamespacedEvent coreApi namespace (''involvedObject.name='' @ podName)) eventsRetryOptions)
            = Threw (Some error)"
  obtain r where r: "analyzeResourceUsage rt pod namespace podName metricsApi = Inr r"
    using analyzeResourceUsage_returns by blast
  have e: "fst (withRetry (\<lambda>k. Inr [] :: js_error + V1Event list) eventsRetryOptions) = Returned []"
    by (simp add: withRetry_def withRetry_loop.simps [of _ _ "Suc 0"] opt_maxAttempts_def eventsRetryOptions_def)
  from a r e show "\<exists>d. diagnosePod rt coreApi namespace podName metricsApi = Inr d \<and> pd_events d = []
               \<and> diagnosePod rt (coreApi\<lparr>listNamespacedEvent := \<lambda>ns selector k. Inr []\<rparr>) namespace podName metricsApi = Inr d"
    by (simp add: diagnosePod_def Let_def parseEvents_Nil)
qed


section \<open>Properties of diagnoseCrashLoop\<close>

lemma crashLoopIssue_fields:
  "issue_type (crashLoopIssue rt ns pn status c s logs) = ''CrashLoopBackOff''"
  "severity (crashLoopIssue rt ns pn status c s logs) = Critical"
  "relevantLogs (crashLoopIssue rt ns pn status c s logs) = logs"
  "message (crashLoopIssue rt ns pn status c s logs) = restartMessage status"
  by (simp_all add: crashLoopIssue_def)

lemma fetchPreviousLogs_throws_error:
  "fst (fetchPreviousLogs logApi namespace podName status) \<noteq> Threw None"
proof -
  have "fst (withRetry (\<lambda>k. snd (logApi namespace podName (v1_name status)
                                   \<lparr>previous = Some True, tailLines = Some 50\<rparr> k)) logRetryOptions) \<noteq> Threw None"
    by (rule withRetry_throws_error) (simp add: opt_maxAttempts_def logRetryOptions_def)
  then show ?thesis
    by (simp add: fetchPreviousLogs_def Let_def split_beta)
qed

lemma crashLoopRound_skipped:
  "skipsContainer containerName status \<or> \<not> detectsCrashLoop status \<Longrightarrow>
   crashLoopRound rt logApi namespace podName containerName status = Inr []"
  by (auto simp: crashLoopRound_def)

text \<open>The two attempts of the log fetch, and what the stream has received after them.\<close>

lemma withRetry_two_attempts:
  assumes "maxAttempts options = Some 2" and "shouldRetry options = None"
  shows "withRetry fn options =
     (case fn 1 of
        Inr v \<Rightarrow> (Returned v, [Invoke 1])
      | Inl error \<Rightarrow>
          if DEFAULT_shouldRetry error then
            (case fn 2 of
               Inr v \<Rightarrow> (Returned v, [Invoke 1, Sleep (opt_initialDelay options), Invoke 2])
             | Inl error' \<Rightarrow> (Threw (Some error'), [Invoke 1, Sleep (opt_initialDelay options), Invoke 2]))
          else (Threw (Some error), [Invoke 1]))"
proof -
  from assms have m: "opt_maxAttempts options = 2" and r: "opt_shouldRetry options = DEFAULT_shouldRetry"
    by (simp_all add: opt_maxAttempts_def opt_shouldRetry_def)
  have two: "withRetry_loop options fn 2 delay lastError =
       (case fn 2 of Inr v \<Rightarrow> (Returned v, [Invoke 2]) | Inl error' \<Rightarrow> (Threw (Some error'), [Invoke 2]))"
    for delay lastError
    by (simp add: withRetry_loop.simps [of options fn 2] m split: sum.splits)
  have "withRetry fn options = withRetry_loop options fn 1 (opt_initialDelay options) None"
    by (simp add: withRetry_def)
  also have "\<dots> = (case fn 1 of
        Inr v \<Rightarrow> (Returned v, [Invoke 1])
      | Inl error \<Rightarrow>
          if DEFAULT_shouldRetry error then
            apsnd (\<lambda>t. Invoke 1 # Sleep (opt_initialDelay options) # t)
              (withRetry_loop options fn 2
                 (min (opt_initialDelay options * opt_backoffMultiplier options) (opt_maxDelay options)) (Some error))
          else (Threw (Some error), [Invoke 1]))"
    by (simp add: withRetry_loop.simps [of options fn "Suc 0"] m r numeral_2_eq_2 split: sum.splits)
  also have "\<dots> = (case fn 1 of
        Inr v \<Rightarrow> (Returned v, [Invoke 1])
      | Inl error \<Rightarrow>
          if DEFAULT_shouldRetry error then
            (case fn 2 of
               Inr v \<Rightarrow> (Returned v, [Invoke 1, Sleep (opt_initialDelay options), Invoke 2])
             | Inl error' \<Rightarrow> (Threw (Some error'), [Invoke 1, Sleep (opt_initialDelay options), Invoke 2]))
          else (Threw (Some error), [Invoke 1]))"
    by (simp add: two split: sum.splits)
  finally show ?thesis .
qed

lemma fetchPreviousLogs_attempts:
  assumes "logCall = logApi namespace podName (v1_name status) \<lparr>previous = Some True, tailLines = Some 50\<rparr>"
  shows "fetchPreviousLogs logApi namespace podName status =
     (case snd (logCall 1) of
        Inr u \<Rightarrow> (Returned u, fst (logCall 1))
      | Inl error \<Rightarrow>
          if DEFAULT_shouldRetry error then
            (case snd (logCall 2) of
               Inr u \<Rightarrow> (Returned u, fst (logCall 1) @ fst (logCall 2))
             | Inl error' \<Rightarrow> (Threw (Some error'), fst (logCall 1) @ fst (logCall 2)))
          else (Threw (Some error), fst (logCall 1)))"
proof -
  have o: "maxAttempts logRetryOptions = Some 2" "shouldRetry logRetryOptions = None"
    by (simp_all add: logRetryOptions_def)
  have u: "[1 ..< Suc 1] = [1]" "[1 ..< Suc 2] = [1, 2]"
    by (simp_all add: upt_rec)
  show ?thesis
    unfolding fetchPreviousLogs_def assms [symmetric] Let_def withRetry_two_attempts [OF o]
    by (simp add: u numeral_2_eq_2 split: sum.splits)
qed


lemma crashLoopRound_issue:
  assumes "\<not> skipsContainer containerName status" and "detectsCrashLoop status"
    and "logCall = logApi namespace podName (v1_name status) \<lparr>previous = Some True, tailLines = Some 50\<rparr>"
  shows "\<exists>c s. crashLoopRound rt logApi namespace podName containerName status
            = Inr [crashLoopIssue rt namespace podName status c s
                     (case snd (logCall 1) of
                        Inr u \<Rightarrow> Some (take 10 (map js_trim (filter isRelevantLog (js_split_nl (fst (logCall 1))))))
                      | Inl error \<Rightarrow>
                          if DEFAULT_shouldRetry error then
                            (case snd (logCall 2) of
                               Inr u \<Rightarrow> Some (take 10 (map js_trim (filter isRelevantLog
                                                 (js_split_nl (fst (logCall 1) @ fst (logCall 2))))))
                             | Inl error' \<Rightarrow> None)
                          else None)]"
proof -
  define cs where "cs = (case (case v1_lastState status of None \<Rightarrow> None | Some st \<Rightarrow> terminated st) of
                  None \<Rightarrow> (''unknown'', [])
                | Some t \<Rightarrow> crashLoopCause namespace podName (v1_name status) (t_exitCode t))"
  have "crashLoopRound rt logApi namespace podName containerName status
            = Inr [crashLoopIssue rt namespace podName status (fst cs) (snd cs)
                     (case snd (logCall 1) of
                        Inr u \<Rightarrow> Some (take 10 (map js_trim (filter isRelevantLog (js_split_nl (fst (logCall 1))))))
                      | Inl error \<Rightarrow>
                          if DEFAULT_shouldRetry error then
                            (case snd (logCall 2) of
                               Inr u \<Rightarrow> Some (take 10 (map js_trim (filter isRelevantLog
                                                 (js_split_nl (fst (logCall 1) @ fst (logCall 2))))))
                             | Inl error' \<Rightarrow> None)
                          else None)]"
  proof -
    have f: "fetchPreviousLogs logApi namespace podName status =
       (case snd (logCall 1) of
          Inr u \<Rightarrow> (Returned u, fst (logCall 1))
        | Inl error \<Rightarrow>
            if DEFAULT_shouldRetry error then
              (case snd (logCall 2) of
                 Inr u \<Rightarrow> (Returned u, fst (logCall 1) @ fst (logCall 2))
               | Inl error' \<Rightarrow> (Threw (Some error'), fst (logCall 1) @ fst (logCall 2)))
            else (Threw (Some error), fst (logCall 1)))"
      using assms(3) by (rule fetchPreviousLogs_attempts)
    show ?thesis
      using assms(1,2)
      by (simp add: crashLoopRound_def f Let_def split_beta cs_def split: sum.splits)
  qed
  then show ?thesis
    by blast
qed

lemma crashLoopRounds_issues:
  assumes "logCall = (\<lambda>status. logApi namespace podName (v1_name status) \<lparr>previous = Some True, tailLines = Some 50\<rparr>)"
    and "attached = (\<lambda>logData. take 10 (map js_trim (filter isRelevantLog (js_split_nl logData))))"
  shows "\<exists>issues. crashLoopRounds rt logApi namespace podName containerName statuses = Inr issues
     \<and> list_all2 (\<lambda>issue status.
            issue_type issue = ''CrashLoopBackOff'' \<and> severity issue = Critical
          \<and> message issue = restartMessage status
          \<and> relevantLogs issue =
              (case snd (logCall status 1) of
                 Inr u \<Rightarrow> Some (attached (fst (logCall status 1)))
               | Inl error \<Rightarrow>
                   if DEFAULT_shouldRetry error then
                     (case snd (logCall status 2) of
                        Inr u \<Rightarrow> Some (attached (fst (logCall status 1) @ fst (logCall status 2)))
                      | Inl error' \<Rightarrow> None)
                   else None))
         issues (filter (\<lambda>status. \<not> skipsContainer containerName status \<and> detectsCrashLoop status) statuses)"
proof -
  define R where "R = (\<lambda>(issue :: DiagnosticIssue) status.
            issue_type issue = ''CrashLoopBackOff'' \<and> severity issue = Critical
          \<and> message issue = restartMessage status
          \<and> relevantLogs issue =
              (case snd (logCall status 1) of
                 Inr u \<Rightarrow> Some (attached (fst (logCall status 1)))
               | Inl error \<Rightarrow>
                   if DEFAULT_shouldRetry error then
                     (case snd (logCall status 2) of
                        Inr u \<Rightarrow> Some (attached (fst (logCall status 1) @ fst (logCall status 2)))
                      | Inl error' \<Rightarrow> None)
                   else None))"
  define K where "K = (\<lambda>status. \<not> skipsContainer containerName status \<and> detectsCrashLoop status)"
  have "\<exists>issues. crashLoopRounds rt logApi namespace podName containerName statuses = Inr issues
          \<and> list_all2 R issues (filter K statuses)"
  proof (induction statuses)
    case Nil
    then show ?case by simp
  next
    case (Cons status rest)
    then obtain later where later: "crashLoopRounds rt logApi namespace podName containerName rest = Inr later"
      and related: "list_all2 R later (filter K rest)"
      by blast
    show ?case
    proof (cases "K status")
      case False
      then have "crashLoopRound rt logApi namespace podName containerName status = Inr []"
        unfolding K_def by (intro crashLoopRound_skipped) simp
      with later have "crashLoopRounds rt logApi namespace podName containerName (status # rest) = Inr later"
        by simp
      moreover from False related have "list_all2 R later (filter K (status # rest))"
        by simp
      ultimately show ?thesis
        by blast
    next
      case True
      then have k: "\<not> skipsContainer containerName status" and d: "detectsCrashLoop status"
        by (simp_all add: K_def)
      have l: "logCall status = logApi namespace podName (v1_name status) \<lparr>previous = Some True, tailLines = Some 50\<rparr>"
        by (simp add: assms(1))
      obtain c s logs where
        r: "crashLoopRound rt logApi namespace podName containerName status
              = Inr [crashLoopIssue rt namespace podName status c s logs]"
        and logs: "logs = (case snd (logCall status 1) of
                        Inr u \<Rightarrow> Some (take 10 (map js_trim (filter isRelevantLog (js_split_nl (fst (logCall status 1))))))
                      | Inl error \<Rightarrow>
                          if DEFAULT_shouldRetry error then
                            (case snd (logCall status 2) of
                               Inr u \<Rightarrow> Some (take 10 (map js_trim (filter isRelevantLog
                                                 (js_split_nl (fst (logCall status 1) @ fst (logCall status 2))))))
                             | Inl error' \<Rightarrow> None)
                          else None)"
        using crashLoopRound_issue [where logCall = "logCall status" and logApi = logApi and rt = rt, OF k d l]
        by blast
      from logs have "R (crashLoopIssue rt namespace podName status c s logs) status"
        by (simp add: R_def crashLoopIssue_fields assms(2) split: sum.splits)
      with related True have "list_all2 R (crashLoopIssue rt namespace podName status c s logs # later)
                           (filter K (status # rest))"
        by simp
      moreover from r later
      have "crashLoopRounds rt logApi namespace podName containerName (status # rest)
              = Inr (crashLoopIssue rt namespace podName status c s logs # later)"
        by simp
      ultimately show ?thesis
        by blast
    qed
  qed
  then show ?thesis
    by (simp only: R_def K_def)
qed

text \<open>What \<open>diagnoseCrashLoop\<close> returns once the pod is fetched: one issue for each container status that is kept and meets the trigger.\<close>

lemma diagnoseCrashLoop_issues:
  assumes "fst (withRetry (readNamespacedPod coreApi podName namespace) (onlyMaxAttempts 3)) = Returned pod"
    and "statuses = (case status_containerStatuses pod of None \<Rightarrow> [] | Some cs \<Rightarrow> cs)"
    and "logCall = (\<lambda>status. logApi namespace podName (v1_name status) \<lparr>previous = Some True, tailLines = Some 50\<rparr>)"
    and "attached = (\<lambda>logData. take 10 (map js_trim (filter isRelevantLog (js_split_nl logData))))"
  shows "\<exists>issues. diagnoseCrashLoop rt coreApi logApi namespace podName containerName = Inr issues
     \<and> list_all2 (\<lambda>issue status.
            issue_type issue = ''CrashLoopBackOff'' \<and> severity issue = Critical
          \<and> message issue = restartMessage status
          \<and> relevantLogs issue =
              (case snd (logCall status 1) of
                 Inr u \<Rightarrow> Some (attached (fst (logCall status 1)))
               | Inl error \<Rightarrow>
                   if DEFAULT_shouldRetry error then
                     (case snd (logCall status 2) of
                        Inr u \<Rightarrow> Some (attached (fst (logCall status 1) @ fst (logCall status 2)))
                      | Inl error' \<Rightarrow> None)
                   else None))
         issues (filter (\<lambda>status. \<not> skipsContainer containerName status \<and> detectsCrashLoop status) statuses)"
proof -
  obtain issues where i: "crashLoopRounds rt logApi namespace podName containerName statuses = Inr issues"
     and rest: "list_all2 (\<lambda>issue status.
            issue_type issue = ''CrashLoopBackOff'' \<and> severity issue = Critical
          \<and> message issue = restartMessage status
          \<and> relevantLogs issue =
              (case snd (logCall status 1) of
                 Inr u \<Rightarrow> Some (attached (fst (logCall status 1)))
               | Inl error \<Rightarrow>
                   if DEFAULT_shouldRetry error then
                     (case snd (logCall status 2) of
                        Inr u \<Rightarrow> Some (attached (fst (logCall status 1) @ fst (logCall status 2)))
                      | Inl error' \<Rightarrow> None)
                   else None))
         issues (filter (\<lambda>status. \<not> skipsContainer containerName status \<and> detectsCrashLoop status) statuses)"
    using crashLoopRounds_issues [where logCall = logCall and attached = attached and logApi = logApi
            and namespace = namespace and podName = podName and rt = rt and containerName = containerName
            and statuses = statuses] assms(3,4)
    by blast
  from assms(1,2) i have "diagnoseCrashLoop rt coreApi logApi namespace podName containerName = Inr issues"
    by (simp add: diagnoseCrashLoop_def Let_def)
  with rest show ?thesis
    by blast
qed

text \<open>The messages of the issues, in order.\<close>

lemma list_all2_map_eq:
  "list_all2 (\<lambda>x y. f x = g y \<and> Q x y) xs ys \<Longrightarrow> map f xs = map g ys"
  by (induction xs ys rule: list_all2_induct) simp_all

lemma diagnoseCrashLoop_messages:
  assumes "fst (withRetry (readNamespacedPod coreApi podName namespace) (onlyMaxAttempts 3)) = Returned pod"
    and "statuses = (case status_containerStatuses pod of None \<Rightarrow> [] | Some cs \<Rightarrow> cs)"
  shows "\<exists>issues. diagnoseCrashLoop rt coreApi logApi namespace podName containerName = Inr issues
     \<and> map message issues
         = map restartMessage (filter (\<lambda>status. \<not> skipsContainer containerName status \<and> detectsCrashLoop status) statuses)"
proof -
  obtain issues where i: "diagnoseCrashLoop rt coreApi logApi namespace podName containerName = Inr issues"
    and l: "list_all2 (\<lambda>issue status.
            issue_type issue = ''CrashLoopBackOff'' \<and> severity issue = Critical
          \<and> message issue = restartMessage status
          \<and> relevantLogs issue =
              (case snd (logApi namespace podName (v1_name status) \<lparr>previous = Some True, tailLines = Some 50\<rparr> 1) of
                 Inr u \<Rightarrow> Some (take 10 (map js_trim (filter isRelevantLog (js_split_nl
                            (fst (logApi namespace podName (v1_name status) \<lparr>previous = Some True, tailLines = Some 50\<rparr> 1))))))
               | Inl error \<Rightarrow>
                   if DEFAULT_shouldRetry error then
                     (case snd (logApi namespace podName (v1_name status) \<lparr>previous = Some True, tailLines = Some 50\<rparr> 2) of
                        Inr u \<Rightarrow> Some (take 10 (map js_trim (filter isRelevantLog (js_split_nl
                            (fst (logApi namespace podName (v1_name status) \<lparr>previous = Some True, tailLines = Some 50\<rparr> 1)
                             @ fst (logApi namespace podName (v1_name status) \<lparr>previous = Some True, tailLines = Some 50\<rparr> 2))))))
                      | Inl error' \<Rightarrow> None)
                   else None))
         issues (filter (\<lambda>status. \<not> skipsContainer containerName status \<and> detectsCrashLoop status) statuses)"
    using diagnoseCrashLoop_issues [where coreApi = coreApi and podName = podName and namespace = namespace
            and pod = pod and statuses = statuses and rt = rt and logApi = logApi and containerName = containerName
            and logCall = "\<lambda>status. logApi namespace podName (v1_name status) \<lparr>previous = Some True, tailLines = Some 50\<rparr>"
            and attached = "\<lambda>logData. take 10 (map js_trim (filter isRelevantLog (js_split_nl logData)))"] assms
    by blast
  have "list_all2 (\<lambda>issue status. message issue = restartMessage status \<and> True)
          issues (filter (\<lambda>status. \<not> skipsContainer containerName status \<and> detectsCrashLoop status) statuses)"
    using l by (rule list_all2_mono) simp
  then have "map message issues
         = map restartMessage (filter (\<lambda>status. \<not> skipsContainer containerName status \<and> detectsCrashLoop status) statuses)"
    by (rule list_all2_map_eq)
  with i show ?thesis
    by blast
qed


text \<open>
  C8: when the pod fetch returns, \<open>diagnoseCrashLoop\<close> returns a list of issues,
  whatever the log fetches do. The list holds one issue for each container status that
  is not skipped by name and meets the trigger, in order; each is a critical
  \<open>CrashLoopBackOff\<close> issue for that container. The log call for the container's
  previous run is tried at most twice. If it fails, at once with an error that is not
  retried or at both attempts, the issue carries no log lines. If it returns, the issue
  carries the first 10, trimmed, of the lines that contain \<open>error\<close>, \<open>exception\<close>,
  \<open>fatal\<close> or \<open>panic\<close> in any letter case, among the lines of the text that the call
  has written to the stream.
\<close>

theorem diagnoseCrashLoop_logs_best_effort:
  assumes "fst (withRetry (readNamespacedPod coreApi podName namespace) (onlyMaxAttempts 3)) = Returned pod"
    and "statuses = (case status_containerStatuses pod of None \<Rightarrow> [] | Some cs \<Rightarrow> cs)"
    and "logCall = (\<lambda>status. logApi namespace podName (v1_name status) \<lparr>previous = Some True, tailLines = Some 50\<rparr>)"
    and "attached = (\<lambda>logData. take 10 (map js_trim (filter isRelevantLog (js_split_nl logData))))"
  shows "\<exists>issues. diagnoseCrashLoop rt coreApi logApi namespace podName containerName = Inr issues
     \<and> list_all2 (\<lambda>issue status.
            issue_type issue = ''CrashLoopBackOff'' \<and> severity issue = Critical
          \<and> message issue = restartMessage status
          \<and> relevantLogs issue =
              (case snd (logCall status 1) of
                 Inr u \<Rightarrow> Some (attached (fst (logCall status 1)))
               | Inl error \<Rightarrow>
                   if DEFAULT_shouldRetry error then
                     (case snd (logCall status 2) of
                        Inr u \<Rightarrow> Some (attached (fst (logCall status 1) @ fst (logCall status 2)))
                      | Inl error' \<Rightarrow> None)
                   else None))
         issues (filter (\<lambda>status. \<not> skipsContainer containerName status \<and> detectsCrashLoop status) statuses)"
  using assms by (rule diagnoseCrashLoop_issues)

text \<open>Evaluations on the example pod.\<close>

lemma withRetry_first_returns:
  "fn 1 = Inr v \<Longrightarrow> 1 \<le> opt_maxAttempts options \<Longrightarrow> withRetry fn options = (Returned v, [Invoke 1])"
  by (simp add: withRetry_def withRetry_loop.simps [of _ _ "Suc 0"])

lemma pod_served:
  "fst (withRetry (readNamespacedPod (clusterWithoutEvents pod) name' ns) (onlyMaxAttempts 3)) = Returned pod"
  by (simp add: withRetry_first_returns clusterWithoutEvents_def opt_maxAttempts_def onlyMaxAttempts_def)

lemma crashingPod_statuses:
  "(case status_containerStatuses crashingPod of None \<Rightarrow> [] | Some cs \<Rightarrow> cs) = [appStatus, sidecarStatus]"
  by (simp add: crashingPod_def)

lemma detects_examples: "detectsCrashLoop appStatus" "detectsCrashLoop sidecarStatus"
  by (simp_all add: detectsCrashLoop_def appStatus_def sidecarStatus_def)

lemma names_examples: "v1_name appStatus = ''app''" "v1_name sidecarStatus = ''sidecar''"
  by (simp_all add: appStatus_def sidecarStatus_def)


text \<open>Without a container name no status is skipped.\<close>

lemma skipsContainer_None: "skipsContainer None status = False"
  by (simp add: skipsContainer_def)

text \<open>
  The statement for C8 on the example pod, with a log endpoint that serves the first
  container only: two issues, the first with the one line of the log that reports a
  panic, the second without log lines.
\<close>

theorem diagnoseCrashLoop_logs_best_effort_witness:
  "\<exists>issues. diagnoseCrashLoop testRuntime (clusterWithoutEvents crashingPod)
                (logsOnlyFor ''app'' panicLog) ''default'' ''web'' None
        = Inr issues
     \<and> map message issues = [restartMessage appStatus, restartMessage sidecarStatus]
     \<and> map relevantLogs issues = [Some [''PANIC: out of memory''], None]"
proof -
  define logCall where "logCall = (\<lambda>status :: V1ContainerStatus. logsOnlyFor ''app'' panicLog ''default'' ''web'' (v1_name status)
                                     \<lparr>previous = Some True, tailLines = Some 50\<rparr>)"
  define attached where "attached = (\<lambda>logData. take 10 (map js_trim (filter isRelevantLog (js_split_nl logData))))"
  have app: "logCall appStatus k = (panicLog, Inr ())" for k
    by (simp add: logCall_def logsOnlyFor_def names_examples)
  have sidecar: "logCall sidecarStatus k = ([], Inl refused)" for k
    by (simp add: logCall_def logsOnlyFor_def names_examples)
  have retried: "DEFAULT_shouldRetry refused"
    by (simp add: DEFAULT_shouldRetry_def refused_def)
  have "take 10 (map js_trim (filter isRelevantLog (js_split_nl panicLog))) = [''PANIC: out of memory'']"
    by code_simp
  then have lines: "attached panicLog = [''PANIC: out of memory'']"
    by (simp add: attached_def)
  have kept: "filter (\<lambda>status. \<not> skipsContainer None status \<and> detectsCrashLoop status) [appStatus, sidecarStatus]
                = [appStatus, sidecarStatus]"
    by (simp add: detects_examples skipsContainer_None)
  obtain issues where
    i: "diagnoseCrashLoop testRuntime (clusterWithoutEvents crashingPod)
                (logsOnlyFor ''app'' panicLog) ''default'' ''web'' None = Inr issues"
    and l: "list_all2 (\<lambda>issue status.
            issue_type issue = ''CrashLoopBackOff'' \<and> severity issue = Critical
          \<and> message issue = restartMessage status
          \<and> relevantLogs issue =
              (case snd (logCall status 1) of
                 Inr u \<Rightarrow> Some (attached (fst (logCall status 1)))
               | Inl error \<Rightarrow>
                   if DEFAULT_shouldRetry error then
                     (case snd (logCall status 2) of
                        Inr u \<Rightarrow> Some (attached (fst (logCall status 1) @ fst (logCall status 2)))
                      | Inl error' \<Rightarrow> None)
                   else None))
         issues (filter (\<lambda>status. \<not> skipsContainer None status \<and> detectsCrashLoop status) [appStatus, sidecarStatus])"
    using diagnoseCrashLoop_logs_best_effort [where coreApi = "clusterWithoutEvents crashingPod"
            and podName = "''web''" and namespace = "''default''" and pod = crashingPod
            and statuses = "[appStatus, sidecarStatus]" and rt = testRuntime
            and logApi = "logsOnlyFor ''app'' panicLog" and containerName = None
            and logCall = logCall and attached = attached]
    by (auto simp: pod_served crashingPod_statuses logCall_def attached_def)
  from l obtain first second where "issues = [first, second]"
    and "message first = restartMessage appStatus" and "relevantLogs first = Some (attached panicLog)"
    and "message second = restartMessage sidecarStatus" and "relevantLogs second = None"
    unfolding kept by (auto simp: list_all2_Cons2 app sidecar retried)
  with i lines show ?thesis
    by simp
qed

text \<open>Under a non-empty container name a status is skipped exactly when its name differs.\<close>

lemma skipsContainer_named:
  "c \<noteq> [] \<Longrightarrow> skipsContainer (Some c) status = (v1_name status \<noteq> c)"
  by (simp add: skipsContainer_def)

lemma crashLoopRound_named:
  "c \<noteq> [] \<Longrightarrow> v1_name status = c \<Longrightarrow>
   crashLoopRound rt logApi namespace podName (Some c) status
     = crashLoopRound rt logApi namespace podName None status"
  by (simp add: crashLoopRound_def skipsContainer_def)

lemma crashLoopRounds_named:
  assumes "c \<noteq> []"
  shows "crashLoopRounds rt logApi namespace podName (Some c) statuses
           = crashLoopRounds rt logApi namespace podName None (filter (\<lambda>status. v1_name status = c) statuses)"
proof (induction statuses)
  case Nil
  then show ?case by simp
next
  case (Cons status rest)
  show ?case
  proof (cases "v1_name status = c")
    case True
    with assms Cons show ?thesis
      by (auto simp: crashLoopRound_named split: sum.splits)
  next
    case False
    with assms have "crashLoopRound rt logApi namespace podName (Some c) status = Inr []"
      by (simp add: crashLoopRound_def skipsContainer_def)
    with False Cons show ?thesis
      by (auto split: sum.splits)
  qed
qed


text \<open>
  C9, as amended: when \<open>diagnoseCrashLoop\<close> is called with a non-empty container
  name and the pod fetch returns, the issues returned are those of the loop run on
  the statuses of that name alone; there is one for each status of that name that
  meets the trigger and none for any other status, whatever its restart count or
  waiting reason.
\<close>

theorem diagnoseCrashLoop_named_container:
  assumes "c \<noteq> []"
    and "fst (withRetry (readNamespacedPod coreApi podName namespace) (onlyMaxAttempts 3)) = Returned pod"
    and "statuses = (case status_containerStatuses pod of None \<Rightarrow> [] | Some cs \<Rightarrow> cs)"
  shows "\<exists>issues. diagnoseCrashLoop rt coreApi logApi namespace podName (Some c) = Inr issues
     \<and> crashLoopRounds rt logApi namespace podName None (filter (\<lambda>status. v1_name status = c) statuses) = Inr issues
     \<and> map message issues
         = map restartMessage (filter (\<lambda>status. v1_name status = c \<and> detectsCrashLoop status) statuses)"
proof -
  obtain issues where i: "diagnoseCrashLoop rt coreApi logApi namespace podName (Some c) = Inr issues"
    and m: "map message issues
         = map restartMessage (filter (\<lambda>status. \<not> skipsContainer (Some c) status \<and> detectsCrashLoop status) statuses)"
    using diagnoseCrashLoop_messages [where rt = rt and logApi = logApi and containerName = "Some c", OF assms(2) assms(3)]
    by blast
  from assms(1) have "(\<lambda>status. \<not> skipsContainer (Some c) status \<and> detectsCrashLoop status)
                       = (\<lambda>status. v1_name status = c \<and> detectsCrashLoop status)"
    by (simp add: skipsContainer_named)
  with m have m': "map message issues
         = map restartMessage (filter (\<lambda>status. v1_name status = c \<and> detectsCrashLoop status) statuses)"
    by simp
  from i assms(2) assms(3) have "crashLoopRounds rt logApi namespace podName (Some c) statuses = Inr issues"
    by (simp add: diagnoseCrashLoop_def Let_def split: sum.splits)
  with assms(1) have "crashLoopRounds rt logApi namespace podName None (filter (\<lambda>status. v1_name status = c) statuses) = Inr issues"
    by (simp add: crashLoopRounds_named)
  with i m' show ?thesis
    by blast
qed


theorem diagnoseCrashLoop_named_container_witness:
  "\<exists>issues. diagnoseCrashLoop testRuntime (clusterWithoutEvents crashingPod) logsUnavailable ''default'' ''web'' (Some ''app'')
        = Inr issues
     \<and> map message issues = [restartMessage appStatus]"
proof -
  have "''app'' \<noteq> []"
    by simp
  then obtain issues where
    "diagnoseCrashLoop testRuntime (clusterWithoutEvents crashingPod) logsUnavailable ''default'' ''web'' (Some ''app'')
        = Inr issues"
    and "map message issues
         = map restartMessage (filter (\<lambda>status. v1_name status = ''app'' \<and> detectsCrashLoop status) [appStatus, sidecarStatus])"
    using diagnoseCrashLoop_named_container [of "''app''" "clusterWithoutEvents crashingPod" "''web''" "''default''"
          crashingPod "[appStatus, sidecarStatus]" testRuntime logsUnavailable]
    by (auto simp: pod_served crashingPod_statuses)
  then show ?thesis
    by (simp add: detects_examples names_examples)
qed


text \<open>
  C9, as stated, fails for the empty string as container name: the test
  \<open>containerName && ...\<close> takes it as no name, and the two containers of the example
  pod, whose names differ from it, each contribute an issue.
\<close>

theorem diagnoseCrashLoop_empty_name_counterexample:
  "v1_name appStatus \<noteq> [] \<and> v1_name sidecarStatus \<noteq> [] \<and>
   diagnoseCrashLoop testRuntime (clusterWithoutEvents crashingPod) logsUnavailable ''default'' ''web'' (Some [])
     = Inr [crashLoopIssue testRuntime ''default'' ''web'' appStatus
              (fst (crashLoopCause ''default'' ''web'' ''app'' 137))
              (snd (crashLoopCause ''default'' ''web'' ''app'' 137)) None,
            crashLoopIssue testRuntime ''default'' ''web'' sidecarStatus ''unknown'' [] None]"
proof -
  have f: "fetchPreviousLogs logsUnavailable ''default'' ''web'' status = (Threw (Some refused), [])" for status
    by (simp add: fetchPreviousLogs_def Let_def withRetry_def withRetry_loop.simps logsUnavailable_def
          logRetryOptions_def opt_maxAttempts_def opt_initialDelay_def opt_maxDelay_def
          opt_backoffMultiplier_def opt_shouldRetry_def DEFAULT_shouldRetry_def refused_def)
  have a: "crashLoopRound testRuntime logsUnavailable ''default'' ''web'' (Some []) appStatus
       = Inr [crashLoopIssue testRuntime ''default'' ''web'' appStatus
              (fst (crashLoopCause ''default'' ''web'' ''app'' 137))
              (snd (crashLoopCause ''default'' ''web'' ''app'' 137)) None]"
    by (simp add: crashLoopRound_def skipsContainer_def detects_examples f Let_def split_beta)
       (simp add: appStatus_def)
  have b: "crashLoopRound testRuntime logsUnavailable ''default'' ''web'' (Some []) sidecarStatus
       = Inr [crashLoopIssue testRuntime ''default'' ''web'' sidecarStatus ''unknown'' [] None]"
    by (simp add: crashLoopRound_def skipsContainer_def detects_examples f Let_def split_beta)
       (simp add: sidecarStatus_def)
  show ?thesis
    by (simp add: diagnoseCrashLoop_def Let_def pod_served crashingPod_statuses a b names_examples)
qed


text \<open>
  The statement for C7 on the examples: a cluster that refuses every connection, and
  one that serves the pod but refuses the event list.
\<close>

theorem diagnosePod_fetch_failures_witness:
  "diagnosePod testRuntime unreachableCluster ''default'' ''web'' None
     = Inl (newError (''Pod diagnosis failed: Cannot read pod web: connect ECONNREFUSED''))
   \<and> (\<exists>d. diagnosePod testRuntime (clusterWithoutEvents crashingPod) ''default'' ''web'' None = Inr d
          \<and> pd_events d = [])"
proof -
  have p: "fst (withRetry (readNamespacedPod unreachableCluster ''web'' ''default'') podRetryOptions) = Threw (Some refused)"
    by (simp add: withRetry_def withRetry_loop.simps unreachableCluster_def podRetryOptions_def
          opt_maxAttempts_def opt_initialDelay_def opt_maxDelay_def
          opt_backoffMultiplier_def opt_shouldRetry_def DEFAULT_shouldRetry_def refused_def)
  have q: "fst (withRetry (readNamespacedPod (clusterWithoutEvents crashingPod) ''web'' ''default'') podRetryOptions) = Returned crashingPod"
    by (simp add: withRetry_first_returns clusterWithoutEvents_def opt_maxAttempts_def podRetryOptions_def)
  have e: "fst (withRetry (listNamespacedEvent (clusterWithoutEvents crashingPod) ''default'' (''involvedObject.name='' @ ''web'')) eventsRetryOptions) = Threw (Some refused)"
    by (simp add: withRetry_def withRetry_loop.simps clusterWithoutEvents_def eventsRetryOptions_def
          opt_maxAttempts_def opt_initialDelay_def opt_maxDelay_def
          opt_backoffMultiplier_def opt_shouldRetry_def DEFAULT_shouldRetry_def refused_def)
  from p have 1: "diagnosePod testRuntime unreachableCluster ''default'' ''web'' None
     = Inl (newError (''Pod diagnosis failed: Cannot read pod web: connect ECONNREFUSED''))"
    using diagnosePod_fetch_failures [of unreachableCluster "''web''" "''default''" refused testRuntime None]
    by (simp add: refused_def)
  from q e have 2: "\<exists>d. diagnosePod testRuntime (clusterWithoutEvents crashingPod) ''default'' ''web'' None = Inr d
          \<and> pd_events d = []"
    using diagnosePod_fetch_failures [of "clusterWithoutEvents crashingPod" "''web''" "''default''" refused testRuntime None crashingPod]
    by blast
  from 1 2 show ?thesis ..
qed


section \<open>Properties of analyzeLogs\<close>

text \<open>The positions at which a test holds, in a list with one more element in front.\<close>

lemma upt_Suc_shift: "[0..<Suc n] = 0 # map Suc [0..<n]"
  by (simp add: upt_conv_Cons map_Suc_upt del: upt_Suc)

lemma filter_positions_Cons:
  "filter (\<lambda>k. P ((x # xs) ! k)) [0..<length (x # xs)]
     = (if P x then [0] else []) @ map Suc (filter (\<lambda>k. P (xs ! k)) [0..<length xs])"
proof -
  have "filter (\<lambda>k. P ((x # xs) ! k)) (map Suc [0..<length xs]) = map Suc (filter (\<lambda>k. P (xs ! k)) [0..<length xs])"
    by (simp add: filter_map comp_def)
  then show ?thesis
    by (simp add: upt_Suc_shift del: upt_Suc)
qed

lemma extractErrorLinesFrom_lineNumbers:
  "map lineNumber (extractErrorLinesFrom i lines)
     = map (\<lambda>k. Suc (i + k))
         (filter (\<lambda>k. list_ex (\<lambda>keyword. js_includes (toLowerCase (lines ! k)) keyword) errorKeywords) [0..<length lines])"
proof (induction lines arbitrary: i)
  case Nil
  then show ?case by simp
next
  case (Cons line rest)
  show ?case
    unfolding filter_positions_Cons [of "\<lambda>l. list_ex (\<lambda>keyword. js_includes (toLowerCase l) keyword) errorKeywords" line rest]
    by (simp add: Cons.IH comp_def)
qed

lemma extractErrorLinesFrom_content:
  "\<forall>e\<in>set (extractErrorLinesFrom i lines).
      i < lineNumber e \<and> lineNumber e \<le> i + length lines \<and> content e = lines ! (lineNumber e - i - 1)"
proof (induction lines arbitrary: i)
  case Nil
  then show ?case by simp
next
  case (Cons line rest)
  have "\<forall>e\<in>set (extractErrorLinesFrom (i + 1) rest).
      i < lineNumber e \<and> lineNumber e \<le> i + length (line # rest) \<and> content e = (line # rest) ! (lineNumber e - i - 1)"
  proof
    fix e assume "e \<in> set (extractErrorLinesFrom (i + 1) rest)"
    with Cons.IH [of "i + 1"] have "i + 1 < lineNumber e" and "lineNumber e \<le> i + 1 + length rest"
      and "content e = rest ! (lineNumber e - (i + 1) - 1)"
      by auto
    moreover from \<open>i + 1 < lineNumber e\<close> have "lineNumber e - i - 1 = Suc (lineNumber e - (i + 1) - 1)"
      by simp
    ultimately show "i < lineNumber e \<and> lineNumber e \<le> i + length (line # rest) \<and> content e = (line # rest) ! (lineNumber e - i - 1)"
      by simp
  qed
  then show ?case
    by simp
qed

lemma extractWarningLinesFrom_lineNumbers:
  "map lineNumber (extractWarningLinesFrom i lines)
     = map (\<lambda>k. Suc (i + k))
         (filter (\<lambda>k. list_ex (\<lambda>keyword. js_includes (toLowerCase (lines ! k)) keyword) warnKeywords) [0..<length lines])"
proof (induction lines arbitrary: i)
  case Nil
  then show ?case by simp
next
  case (Cons line rest)
  show ?case
    unfolding filter_positions_Cons [of "\<lambda>l. list_ex (\<lambda>keyword. js_includes (toLowerCase l) keyword) warnKeywords" line rest]
    by (simp add: Cons.IH comp_def)
qed

lemma extractWarningLinesFrom_content:
  "\<forall>e\<in>set (extractWarningLinesFrom i lines).
      i < lineNumber e \<and> lineNumber e \<le> i + length lines \<and> content e = lines ! (lineNumber e - i - 1)"
proof (induction lines arbitrary: i)
  case Nil
  then show ?case by simp
next
  case (Cons line rest)
  have "\<forall>e\<in>set (extractWarningLinesFrom (i + 1) rest).
      i < lineNumber e \<and> lineNumber e \<le> i + length (line # rest) \<and> content e = (line # rest) ! (lineNumber e - i - 1)"
  proof
    fix e assume "e \<in> set (extractWarningLinesFrom (i + 1) rest)"
    with Cons.IH [of "i + 1"] have "i + 1 < lineNumber e" and "lineNumber e \<le> i + 1 + length rest"
      and "content e = rest ! (lineNumber e - (i + 1) - 1)"
      by auto
    moreover from \<open>i + 1 < lineNumber e\<close> have "lineNumber e - i - 1 = Suc (lineNumber e - (i + 1) - 1)"
      by simp
    ultimately show "i < lineNumber e \<and> lineNumber e \<le> i + length (line # rest) \<and> content e = (line # rest) ! (lineNumber e - i - 1)"
      by simp
  qed
  then show ?case
    by simp
qed

lemma matchedLinesFrom_positions:
  "matchedLinesFrom re i lines = map (\<lambda>k. Suc (i + k)) (filter (\<lambda>k. regexTest re (lines ! k)) [0..<length lines])"
proof (induction lines arbitrary: i)
  case Nil
  then show ?case by simp
next
  case (Cons line rest)
  show ?case
    unfolding filter_positions_Cons [of "regexTest re" line rest]
    by (simp add: Cons.IH comp_def)
qed

lemma detectErrorPatterns_matchedLines:
  assumes "p \<in> set (detectErrorPatterns lines)"
  shows "\<exists>k\<in>set knownPatterns. kp_name k = ep_name p
           \<and> matchedLines p = map Suc (filter (\<lambda>i. regexTest (kp_regex k) (lines ! i)) [0..<length lines])"
proof -
  from assms obtain k where k: "k \<in> set knownPatterns" and p: "p \<in> set (matchPattern lines k)"
    by (auto simp: detectErrorPatterns_def)
  from p have "ep_name p = kp_name k" and "matchedLines p = matchedLinesFrom (kp_regex k) 0 lines"
    by (auto simp: matchPattern_def Let_def split: if_splits)
  with k show ?thesis
    by (auto simp: matchedLinesFrom_positions)
qed


text \<open>
  C10: when the log call returns, \<open>analyzeLogs\<close> returns a result in which
  \<open>totalLines\<close> is the number of lines of the log text that are not blank, the line
  numbers of the error lines, of the warning lines and of each pattern are the
  positions, counted from 1 in the sequence of non-blank lines, of the lines that hold
  a keyword or match the pattern, and the content of an entry is the non-blank line at
  its line number.
\<close>

theorem analyzeLogs_line_numbers:
  assumes "logApi namespace podName (orElse containerName [])
             \<lparr>previous = None, tailLines = Some (case tailLines' of None \<Rightarrow> 500 | Some n \<Rightarrow> n)\<rparr> 1
           = (logData, Inr ())"
    and "lines = filter (\<lambda>line. js_trim line \<noteq> []) (js_split_nl logData)"
  shows "\<exists>r. analyzeLogs logApi namespace podName containerName tailLines' = Inr r
     \<and> totalLines r = length lines
     \<and> map lineNumber (errorLines r)
         = map Suc (filter (\<lambda>k. list_ex (\<lambda>keyword. js_includes (toLowerCase (lines ! k)) keyword) errorKeywords)
                      [0..<length lines])
     \<and> map lineNumber (warningLines r)
         = map Suc (filter (\<lambda>k. list_ex (\<lambda>keyword. js_includes (toLowerCase (lines ! k)) keyword) warnKeywords)
                      [0..<length lines])
     \<and> (\<forall>e\<in>set (errorLines r @ warningLines r).
           1 \<le> lineNumber e \<and> lineNumber e \<le> length lines \<and> content e = lines ! (lineNumber e - 1))
     \<and> (\<forall>p\<in>set (patterns r). \<exists>k\<in>set knownPatterns. kp_name k = ep_name p
           \<and> matchedLines p = map Suc (filter (\<lambda>i. regexTest (kp_regex k) (lines ! i)) [0..<length lines]))"
proof -
  define r where "r = \<lparr>totalLines = length lines,
                    errorLines = extractErrorLines lines,
                    warningLines = extractWarningLines lines,
                    patterns = detectErrorPatterns lines,
                    repeatedErrors = findRepeatedErrors (extractErrorLines lines),
                    la_summary = generateLogSummary (length lines) (extractErrorLines lines) (detectErrorPatterns lines),
                    recommendations = generateRecommendations (detectErrorPatterns lines)
                                        (findRepeatedErrors (extractErrorLines lines))\<rparr>"
  from assms have 1: "analyzeLogs logApi namespace podName containerName tailLines' = Inr r"
    by (simp add: analyzeLogs_def Let_def r_def)
  have 2: "totalLines r = length lines"
    by (simp add: r_def)
  have 3: "map lineNumber (errorLines r)
         = map Suc (filter (\<lambda>k. list_ex (\<lambda>keyword. js_includes (toLowerCase (lines ! k)) keyword) errorKeywords)
                      [0..<length lines])"
    by (simp add: r_def extractErrorLines_def extractErrorLinesFrom_lineNumbers)
  have 4: "map lineNumber (warningLines r)
         = map Suc (filter (\<lambda>k. list_ex (\<lambda>keyword. js_includes (toLowerCase (lines ! k)) keyword) warnKeywords)
                      [0..<length lines])"
    by (simp add: r_def extractWarningLines_def extractWarningLinesFrom_lineNumbers)
  have 5: "\<forall>e\<in>set (errorLines r @ warningLines r).
           1 \<le> lineNumber e \<and> lineNumber e \<le> length lines \<and> content e = lines ! (lineNumber e - 1)"
    using extractErrorLinesFrom_content [of 0 lines] extractWarningLinesFrom_content [of 0 lines]
    by (auto simp: r_def extractErrorLines_def extractWarningLines_def)
  have 6: "\<forall>p\<in>set (patterns r). \<exists>k\<in>set knownPatterns. kp_name k = ep_name p
           \<and> matchedLines p = map Suc (filter (\<lambda>i. regexTest (kp_regex k) (lines ! i)) [0..<length lines])"
    using detectErrorPatterns_matchedLines [of _ lines] by (simp add: r_def)
  from 1 2 3 4 5 6 show ?thesis
    by blast
qed


text \<open>
  On a log text whose third and fifth raw lines are the only ones that are not blank,
  the error is reported at line 1 and the warning at line 2.
\<close>

lemma blankLog_lines:
  "filter (\<lambda>line. js_trim line \<noteq> []) (js_split_nl blankLog) = [''ERROR boom'', ''warning: deprecated'']"
  by code_simp

theorem analyzeLogs_line_numbers_witness:
  "\<exists>r. analyzeLogs (logsOf blankLog) ''default'' ''web'' None None = Inr r
     \<and> totalLines r = 2
     \<and> map lineNumber (errorLines r) = [1]
     \<and> map lineNumber (warningLines r) = [2]"
proof -
  have e: "filter (\<lambda>k. list_ex (\<lambda>keyword. js_includes (toLowerCase ([''ERROR boom'', ''warning: deprecated''] ! k)) keyword) errorKeywords) [0..<2] = [0]"
    by code_simp
  have w: "filter (\<lambda>k. list_ex (\<lambda>keyword. js_includes (toLowerCase ([''ERROR boom'', ''warning: deprecated''] ! k)) keyword) warnKeywords) [0..<2] = [1]"
    by code_simp
  have len: "length [''ERROR boom'', ''warning: deprecated''] = 2"
    by simp
  obtain r where "analyzeLogs (logsOf blankLog) ''default'' ''web'' None None = Inr r"
    and "totalLines r = length [''ERROR boom'', ''warning: deprecated'']"
    and "map lineNumber (errorLines r)
         = map Suc (filter (\<lambda>k. list_ex (\<lambda>keyword. js_includes (toLowerCase ([''ERROR boom'', ''warning: deprecated''] ! k)) keyword) errorKeywords)
                      [0..<length [''ERROR boom'', ''warning: deprecated'']])"
    and "map lineNumber (warningLines r)
         = map Suc (filter (\<lambda>k. list_ex (\<lambda>keyword. js_includes (toLowerCase ([''ERROR boom'', ''warning: deprecated''] ! k)) keyword) warnKeywords)
                      [0..<length [''ERROR boom'', ''warning: deprecated'']])"
    using analyzeLogs_line_numbers [of "logsOf blankLog" "''default''" "''web''" None None blankLog
            "[''ERROR boom'', ''warning: deprecated'']"]
    by (auto simp: logsOf_def blankLog_lines)
  then have "analyzeLogs (logsOf blankLog) ''default'' ''web'' None None = Inr r
     \<and> totalLines r = 2
     \<and> map lineNumber (errorLines r) = map Suc [0]
     \<and> map lineNumber (warningLines r) = map Suc [1]"
    by (simp only: len e w)
  then show ?thesis
    by (intro exI [of _ r]) simp
qed

end
